theory Spec2Isabelle
  imports Complex_Main
begin

section \<open>TruckLog Pro front end: a shallow embedding of \<open>src/App.jsx\<close>\<close>

text \<open>
  The component \<open>App\<close> keeps its data in React state cells (\<open>useState\<close>) and in mutable
  refs (\<open>useRef\<close>). The embedding below follows the source: the state cells are a record,
  the refs and the Leaflet objects they point to are a second record, every effect and
  handler is a function from state to state, and an exception is a value \<open>Inl e\<close>.

  JavaScript numbers are modelled by exact rationals: the arithmetic of the source
  (\<open>+\<close>, \<open>-\<close>, \<open>/\<close>, \<open>Math.max\<close>) is the arithmetic of \<^typ>\<open>rat\<close>, without the rounding of
  IEEE doubles and without \<open>NaN\<close> and the infinities.
\<close>

subsection \<open>Numbers as text: \<open>Number.prototype.toFixed(1)\<close> and \<open>parseFloat\<close>\<close>

text \<open>
  \<open>x.toFixed(1)\<close> returns a string: an optional minus sign (when \<open>x < 0\<close>), then the
  integer \<open>n\<close> for which \<open>n / 10\<close> is closest to the magnitude of \<open>x\<close> (the larger \<open>n\<close> on a
  tie), printed with one digit after the decimal point (for magnitudes below \<open>10^21\<close>,
  where \<open>toFixed\<close> uses no exponent). The value \<open>Fixed1 neg n\<close> stands for that string;
  \<open>render\<close> gives its characters and \<open>parseFloat\<close> reads it back as a number.

  The argument of \<open>toFixed1\<close> is the exact value of the number. A JavaScript number is a
  binary double, and a decimal that lies exactly halfway between two tenths (\<open>0.35\<close>,
  \<open>0.15\<close>, or \<open>70 - 69.95\<close>) is in general not one: the double the code holds there is
  slightly off the tie, and the code may print the lower tenth (\<open>0.3\<close>, \<open>0.1\<close>, \<open>0.0\<close>)
  where \<open>toFixed1\<close> at the exact decimal gives the higher. The rounding of doubles, \<open>NaN\<close>
  and the exponent form are outside this model. For that reason the theorems about a
  shown text either say that it is a text with one decimal within 0.05 of the exact
  value, which holds of either tenth, or fix the text at arguments away from a tie.
\<close>

datatype fixed1 = Fixed1 (negative: bool) (tenths: nat)

definition toFixed1 :: "rat \<Rightarrow> fixed1" where
  "toFixed1 x = Fixed1 (x < 0) (nat \<lfloor>\<bar>x\<bar> * 10 + 1 / 2\<rfloor>)"

definition digitChar :: "nat \<Rightarrow> char" where
  "digitChar d = ''0123456789'' ! d"

fun digits :: "nat \<Rightarrow> string" where
  "digits n = (if n < 10 then [digitChar n] else digits (n div 10) @ [digitChar (n mod 10)])"

declare digits.simps [simp del]

definition render :: "fixed1 \<Rightarrow> string" where
  "render f =
     (if negative f then ''-'' else '''') @ digits (tenths f div 10) @ ''.'' @ digits (tenths f mod 10)"

definition parseFloat :: "fixed1 \<Rightarrow> rat" where
  "parseFloat f = (if negative f then - (of_nat (tenths f) / 10) else of_nat (tenths f) / 10)"

subsection \<open>The response data\<close>

text \<open>
  One activity entry and one day of the log, with the field names of the JSON the
  component reads (\<open>entry.activity\<close>, \<open>entry.duration\<close>, \<open>dayLog.total_driving\<close>, ...).
\<close>

record entry =
  activity :: string
  duration :: rat
  color :: string

record daylog =
  day :: int
  entries :: "entry list"
  total_driving :: rat
  total_on_duty :: rat
  total_sleeper :: rat
  total_off_duty :: rat

subsection \<open>Compliance figures\<close>

text \<open>
  The reduction that both versions of the component use for the hours a trip adds:
  \<^verbatim>\<open>logs.reduce((acc, day) => acc + day.total_driving + day.total_on_duty, 0)\<close>.
  \<open>Array.prototype.reduce\<close> with an initial value is a left fold.
\<close>

definition totalTripHours :: "daylog list \<Rightarrow> rat" where
  "totalTripHours logs = foldl (\<lambda>acc day. acc + total_driving day + total_on_duty day) 0 logs"

text \<open>\<^verbatim>\<open>calculateTotalTripHours\<close>: the reduction, as text with one decimal.\<close>

definition calculateTotalTripHours :: "daylog list \<Rightarrow> fixed1" where
  "calculateTotalTripHours logs = toFixed1 (totalTripHours logs)"

text \<open>
  The number under \<open>.toFixed(1)\<close> in \<^verbatim>\<open>calculateRemainingCycle\<close> and in the inline
  expression of the first version:
  \<^verbatim>\<open>Math.max(0, 70 - (currentCycleUsed + totalTripHours))\<close>.
\<close>

definition remainingCycleHours :: "rat \<Rightarrow> rat \<Rightarrow> rat" where
  "remainingCycleHours currentCycleUsed tripHours = max 0 (70 - (currentCycleUsed + tripHours))"

text \<open>
  \<^verbatim>\<open>calculateRemainingCycle\<close> reads the trip hours back from the text that
  \<^verbatim>\<open>calculateTotalTripHours\<close> returns.
\<close>

definition calculateRemainingCycle :: "rat \<Rightarrow> daylog list \<Rightarrow> fixed1" where
  "calculateRemainingCycle currentCycleUsed logs =
     (let tripHours = parseFloat (calculateTotalTripHours logs)
      in toFixed1 (remainingCycleHours currentCycleUsed tripHours))"


definition remainingCycleNote :: "rat \<Rightarrow> daylog list \<Rightarrow> fixed1" where
  "remainingCycleNote currentCycleUsed logs =
     toFixed1 (remainingCycleHours currentCycleUsed (totalTripHours logs))"

subsection \<open>Distance and driving time line\<close>

text \<open>
  \<^verbatim>\<open>~{totalDistance !== null ? totalDistance.toFixed(1) : 750} miles\<close> and
  \<^verbatim>\<open>~{totalDistance !== null ? (totalDistance / 55).toFixed(1) : 13.6} hrs\<close>.
  \<open>totalDistance\<close> is \<open>null\<close> until a reply has been stored; React prints the numeric
  literals \<open>750\<close> and \<open>13.6\<close> as the texts \<open>750\<close> and \<open>13.6\<close>.
\<close>

definition estimatedDrivingHours :: "rat \<Rightarrow> rat" where
  "estimatedDrivingHours totalDistance = totalDistance / 55"

definition distanceText :: "rat option \<Rightarrow> string" where
  "distanceText totalDistance =
     (case totalDistance of Some d \<Rightarrow> render (toFixed1 d) | None \<Rightarrow> ''750'')"

definition drivingTimeText :: "rat option \<Rightarrow> string" where
  "drivingTimeText totalDistance =
     (case totalDistance of
        Some d \<Rightarrow> render (toFixed1 (estimatedDrivingHours d))
      | None \<Rightarrow> ''13.6'')"

text \<open>Two days whose driving plus on-duty hours add up to 30, and a log of one day.\<close>

definition exampleLogs :: "daylog list" where
  "exampleLogs =
     [\<lparr>day = 1, entries = [], total_driving = 11, total_on_duty = 3, total_sleeper = 10,
        total_off_duty = 0\<rparr>,
      \<lparr>day = 2, entries = [], total_driving = 11, total_on_duty = 5, total_sleeper = 8,
        total_off_duty = 0\<rparr>]"

definition shortLogs :: "daylog list" where
  "shortLogs =
     [\<lparr>day = 1, entries = [], total_driving = 9, total_on_duty = 2, total_sleeper = 10,
        total_off_duty = 3\<rparr>]"

text \<open>
  One day whose driving plus on-duty hours add up to 69.96, just below the 70 hours of
  the cycle.
\<close>

definition nearLimitLogs :: "daylog list" where
  "nearLimitLogs =
     [\<lparr>day = 1, entries = [], total_driving = 60, total_on_duty = 249 / 25, total_sleeper = 0,
        total_off_duty = 0\<rparr>]"

text \<open>One day of 30.03 driving hours.\<close>

definition offTenthLogs :: "daylog list" where
  "offTenthLogs =
     [\<lparr>day = 1, entries = [], total_driving = 3003 / 100, total_on_duty = 0, total_sleeper = 0,
        total_off_duty = 0\<rparr>]"

text \<open>
  The whole line of the page, as text:
  \<^verbatim>\<open>Estimated Distance: ~{...} miles | Est. Driving Time: ~{...} hrs\<close>. The wording
  around the two numbers does not depend on whether a distance is stored.
\<close>

definition estimateLine :: "rat option \<Rightarrow> string" where
  "estimateLine totalDistance =
     ''Estimated Distance: ~'' @ distanceText totalDistance
       @ '' miles | Est. Driving Time: ~'' @ drivingTimeText totalDistance @ '' hrs''"

subsection \<open>Component state\<close>

text \<open>
  The \<open>useState\<close> cells of \<open>App\<close>, with their initial values. \<open>routePoints\<close> is a list of
  \<open>[lat, lng]\<close> pairs; \<open>totalDistance\<close> starts as \<open>null\<close>.
\<close>

type_synonym latlng = "rat \<times> rat"

record app_state =
  currentLocation :: string
  pickupLocation :: string
  dropoffLocation :: string
  currentCycleUsed :: rat
  logs :: "daylog list"
  isCalculating :: bool
  error :: string
  routePoints :: "latlng list"
  totalDistance :: "rat option"

definition initialState :: app_state where
  "initialState =
     \<lparr>currentLocation = ''Chicago, IL'', pickupLocation = ''St. Louis, MO'',
      dropoffLocation = ''Atlanta, GA'', currentCycleUsed = 45 / 2, logs = [],
      isCalculating = False, error = '''', routePoints = [], totalDistance = None\<rparr>"

subsection \<open>The reply of the trip service\<close>

text \<open>
  \<open>data\<close> is the parsed JSON body. \<open>data.success\<close> is read for its truth value;
  \<open>data.error\<close> and \<open>data.route\<close> may be absent (\<open>undefined\<close>).
\<close>

record route_data =
  route_points :: "latlng list"
  total_distance :: rat

record payload =
  data_success :: bool
  data_logs :: "daylog list"
  data_route :: "route_data option"
  data_error :: "string option"

text \<open>
  What the two \<open>await\<close>s of \<open>handleSubmit\<close> can produce: \<open>fetch\<close> rejects (the string is
  the message of the error it throws); a response arrives with its \<open>ok\<close> flag (status
  200 to 299) and \<open>response.json()\<close> rejects; or the body parses to \<open>data\<close>.
\<close>

datatype reply =
    FetchRejected string
  | JsonRejected bool string
  | Json bool payload

subsection \<open>\<open>handleSubmit\<close>\<close>

text \<open>\<open>a || b\<close> on strings: the empty string is falsy.\<close>

definition orElse :: "string \<Rightarrow> string \<Rightarrow> string" where
  "orElse a b = (if a \<noteq> '''' then a else b)"

text \<open>The part of \<open>handleSubmit\<close> before the first \<open>await\<close>.\<close>

definition submitStart :: "app_state \<Rightarrow> app_state" where
  "submitStart s = s\<lparr>isCalculating := True, error := ''''\<rparr>"

text \<open>The \<open>catch\<close> clause and the \<open>finally\<close> clause.\<close>

definition catchClause :: "string \<Rightarrow> app_state \<Rightarrow> app_state" where
  "catchClause message s =
     s\<lparr>error := orElse message ''Network error. Please check your Django backend.''\<rparr>"

definition finallyClause :: "app_state \<Rightarrow> app_state" where
  "finallyClause s = s\<lparr>isCalculating := False\<rparr>"

text \<open>
  The message of the \<open>TypeError\<close> that reading \<open>data.route.route_points\<close> throws when
  \<open>data.route\<close> is absent (the wording is that of V8; \<open>CHR 0x27\<close> is the single quote).
\<close>

definition missingRouteMessage :: string where
  "missingRouteMessage =
     ''Cannot read properties of undefined (reading '' @ [CHR 0x27] @ ''route_points''
       @ [CHR 0x27] @ '')''"

text \<open>
  The part of \<open>handleSubmit\<close> after the \<open>await\<close>s. In the success branch the three
  setters run in the order of the source, so a missing \<open>data.route\<close> throws after
  \<open>setLogs\<close>.
\<close>

definition settle :: "reply \<Rightarrow> app_state \<Rightarrow> app_state" where
  "settle r s =
     (case r of
        FetchRejected message \<Rightarrow> finallyClause (catchClause message s)
      | JsonRejected ok message \<Rightarrow> finallyClause (catchClause message s)
      | Json ok data \<Rightarrow>
          if ok \<and> data_success data then
            (let s1 = s\<lparr>logs := data_logs data\<rparr> in
             case data_route data of
               None \<Rightarrow> finallyClause (catchClause missingRouteMessage s1)
             | Some route \<Rightarrow>
                 finallyClause
                   (s1\<lparr>routePoints := route_points route,
                       totalDistance := Some (total_distance route)\<rparr>))
          else
            finallyClause
              (catchClause
                 (orElse (case data_error data of Some m \<Rightarrow> m | None \<Rightarrow> '''')
                    ''Failed to generate logs'') s))"

text \<open>
  One call of \<open>handleSubmit\<close> that nothing interleaves with. The request it sends (the
  three location names and \<open>currentCycleUsed\<close>) changes no state; what comes back is an
  argument of the model.
\<close>

definition handleSubmit :: "reply \<Rightarrow> app_state \<Rightarrow> app_state" where
  "handleSubmit r s = settle r (submitStart s)"

text \<open>The submit button: \<^verbatim>\<open>disabled={isCalculating}\<close>.\<close>

definition submitDisabled :: "app_state \<Rightarrow> bool" where
  "submitDisabled s = isCalculating s"

text \<open>
  Interleavings of several calls. \<open>Submit n\<close> is the start of call \<open>n\<close> and
  \<open>Settle n r\<close> the arrival of its reply; the number only names the call in a trace:
  \<open>handleSubmit\<close> keeps no such number, so a step does not look at it.
\<close>

datatype event = Submit nat | Settle nat reply

fun step :: "app_state \<Rightarrow> event \<Rightarrow> app_state" where
  "step s (Submit n) = submitStart s"
| "step s (Settle n r) = settle r s"

definition run :: "app_state \<Rightarrow> event list \<Rightarrow> app_state" where
  "run s evs = foldl step s evs"

text \<open>What the page shows of a trip result.\<close>

definition displayed :: "app_state \<Rightarrow> daylog list \<times> latlng list \<times> rat option" where
  "displayed s = (logs s, routePoints s, totalDistance s)"

text \<open>
  A reply signals success when the status is 2xx and \<open>data.success\<close> is true; a failed
  reply is any other: a rejected \<open>fetch\<close>, an unreadable body, a non-2xx status or
  \<open>success = false\<close>.
\<close>

definition signalsSuccess :: "reply \<Rightarrow> bool" where
  "signalsSuccess r = (case r of Json ok data \<Rightarrow> ok \<and> data_success data | _ \<Rightarrow> False)"

text \<open>Two replies with different payloads, and a service-reported failure.\<close>

definition payloadA :: payload where
  "payloadA =
     \<lparr>data_success = True, data_logs = shortLogs,
      data_route = Some \<lparr>route_points = [(41, -87), (38, -90), (33, -84)], total_distance = 770\<rparr>,
      data_error = None\<rparr>"

definition payloadB :: payload where
  "payloadB =
     \<lparr>data_success = True, data_logs = exampleLogs,
      data_route = Some \<lparr>route_points = [(40, -74), (39, -75), (38, -77)], total_distance = 225\<rparr>,
      data_error = None\<rparr>"

definition payloadFailed :: payload where
  "payloadFailed =
     \<lparr>data_success = False, data_logs = [], data_route = None,
      data_error = Some ''Could not geocode location''\<rparr>"

text \<open>
  Call 1 is submitted, call 2 is submitted while call 1 is in flight, the reply of
  call 2 arrives, and the reply of call 1 arrives last.
\<close>

definition raceTrace :: "event list" where
  "raceTrace = [Submit 1, Submit 2, Settle 2 (Json True payloadB), Settle 1 (Json True payloadA)]"

text \<open>
  The replies of a trace in their order of arrival, and the result that a reply stores
  when it signals success and carries its route.
\<close>

fun arrivals :: "event list \<Rightarrow> reply list" where
  "arrivals [] = []"
| "arrivals (Submit n # evs) = arrivals evs"
| "arrivals (Settle n r # evs) = r # arrivals evs"

definition storedResult :: "reply \<Rightarrow> (daylog list \<times> latlng list \<times> rat option) option" where
  "storedResult r =
     (case r of
        Json ok data \<Rightarrow>
          if ok \<and> data_success data then
            (case data_route data of
               Some route \<Rightarrow> Some (data_logs data, route_points route, Some (total_distance route))
             | None \<Rightarrow> None)
          else None
      | _ \<Rightarrow> None)"

text \<open>A reply is complete when it carries its route whenever it signals success.\<close>

definition complete :: "reply \<Rightarrow> bool" where
  "complete r = (signalsSuccess r = (storedResult r \<noteq> None))"

text \<open>
  The result stored by the last reply of a list that stores one, if there is such a
  reply.
\<close>

definition lastStored :: "reply list \<Rightarrow> (daylog list \<times> latlng list \<times> rat option) option" where
  "lastStored rs =
     (let stored = List.map_filter storedResult rs
      in if stored = [] then None else Some (last stored))"

text \<open>A reply with status 200 and \<open>success: true\<close> whose body has logs and no route.\<close>

definition payloadNoRoute :: payload where
  "payloadNoRoute =
     \<lparr>data_success = True, data_logs = exampleLogs, data_route = None, data_error = None\<rparr>"

subsection \<open>The Leaflet map and the refs\<close>

text \<open>
  A Leaflet map keeps its layers keyed by the number that \<open>L.Util.stamp\<close> gives an
  object (the counter \<open>lastId\<close>), and a view. \<open>addTo\<close> does nothing for a layer the
  map already has; \<open>removeLayer\<close> takes the layer with that number off the map.
\<close>

datatype layer = TileLayer string | Marker latlng string | Polyline "latlng list"

datatype view = SetView latlng nat | FitBounds "latlng list"

record leaflet_map =
  layers :: "(nat \<times> layer) list"
  view :: view

definition addTo :: "nat \<Rightarrow> layer \<Rightarrow> leaflet_map \<Rightarrow> leaflet_map" where
  "addTo i l m = (if i \<in> set (map fst (layers m)) then m else m\<lparr>layers := layers m @ [(i, l)]\<rparr>)"

definition removeLayer :: "nat \<Rightarrow> leaflet_map \<Rightarrow> leaflet_map" where
  "removeLayer i m = m\<lparr>layers := filter (\<lambda>l. fst l \<noteq> i) (layers m)\<rparr>"

definition fitBounds :: "latlng list \<Rightarrow> leaflet_map \<Rightarrow> leaflet_map" where
  "fitBounds bounds m = m\<lparr>view := FitBounds bounds\<rparr>"

text \<open>
  The four refs of \<open>App\<close>. \<open>mapContainerRef.current\<close> is the DOM node once the component
  is mounted; \<open>markersRef.current\<close> is an object from location name to marker, kept as
  an association list in insertion order; markers and the polyline are referred to by
  their stamps. \<open>mapsCreated\<close> counts the calls of \<open>L.map\<close> and \<open>mapsLive\<close> the maps
  created and not removed: they are bookkeeping of the model, not fields of the source.
\<close>

record map_state =
  mapContainerRef :: "nat option"
  mapRef :: "leaflet_map option"
  markersRef :: "(string \<times> nat) list"
  polylineRef :: "nat option"
  lastId :: nat
  mapsCreated :: nat
  mapsLive :: nat

definition mountedRefs :: map_state where
  "mountedRefs =
     \<lparr>mapContainerRef = Some 0, mapRef = None, markersRef = [], polylineRef = None,
      lastId = 0, mapsCreated = 0, mapsLive = 0\<rparr>"

text \<open>A call \<open>mapRef.current.f(...)\<close>.\<close>

definition onMap :: "(leaflet_map \<Rightarrow> leaflet_map) \<Rightarrow> map_state \<Rightarrow> map_state" where
  "onMap f w = w\<lparr>mapRef := map_option f (mapRef w)\<rparr>"

subsection \<open>The map initialisation effect\<close>

text \<open>
  \<^verbatim>\<open>if (!mapContainerRef.current || mapRef.current) return;\<close> then a new map with the
  default view and the tile layer is stored in \<open>mapRef\<close>. The effect returns the cleanup
  that removes the map and resets the ref.
\<close>

definition initMapEffect :: "map_state \<Rightarrow> map_state" where
  "initMapEffect w =
     (if mapContainerRef w = None \<or> mapRef w \<noteq> None then w
      else
        let tile = Suc (lastId w);
            newMap = addTo tile (TileLayer ''https://{s}.tile.openstreetmap.org/{z}/{x}/{y}.png'')
                       \<lparr>layers = [], view = SetView (418781 / 10000, - 876298 / 10000) 5\<rparr>
        in w\<lparr>mapRef := Some newMap, lastId := tile,
              mapsCreated := Suc (mapsCreated w), mapsLive := Suc (mapsLive w)\<rparr>)"

definition cleanupMapEffect :: "map_state \<Rightarrow> map_state" where
  "cleanupMapEffect w =
     (case mapRef w of
        None \<Rightarrow> w
      | Some m \<Rightarrow> w\<lparr>mapRef := None, mapsLive := mapsLive w - 1\<rparr>)"

text \<open>Any sequence of runs of the effect and of its cleanup.\<close>

datatype map_event = InitMap | CleanupMap

fun mapStep :: "map_state \<Rightarrow> map_event \<Rightarrow> map_state" where
  "mapStep w InitMap = initMapEffect w"
| "mapStep w CleanupMap = cleanupMapEffect w"

definition runMap :: "map_state \<Rightarrow> map_event list \<Rightarrow> map_state" where
  "runMap w evs = foldl mapStep w evs"

text \<open>The live maps are the one that \<open>mapRef\<close> holds, if it holds one.\<close>

definition liveMatchesRef :: "map_state \<Rightarrow> bool" where
  "liveMatchesRef w = (mapsLive w = (if mapRef w = None then 0 else 1))"

subsection \<open>The route effect\<close>

text \<open>
  \<open>const [start, pickup, dropoff] = routePoints\<close>: a position past the end of the array
  gives \<open>undefined\<close>.
\<close>

definition nthOpt :: "'a list \<Rightarrow> nat \<Rightarrow> 'a option" where
  "nthOpt xs i = (if i < length xs then Some (xs ! i) else None)"

text \<open>\<open>obj[k] = v\<close> on an object kept as an association list.\<close>

definition setKey :: "string \<Rightarrow> nat \<Rightarrow> (string \<times> nat) list \<Rightarrow> (string \<times> nat) list" where
  "setKey k v kvs =
     (if k \<in> set (map fst kvs) then map (\<lambda>kv. if fst kv = k then (k, v) else kv) kvs
      else kvs @ [(k, v)])"

datatype js_error = TypeError

text \<open>
  \<open>createMarker\<close> (\<open>addMarker\<close> in the second version, which only adds an icon).
  Leaflet throws a \<open>TypeError\<close> when a marker without coordinates is added to a map:
  it reads \<open>lat\<close> of \<open>undefined\<close> to place the icon.
\<close>

definition createMarker :: "string \<Rightarrow> latlng option \<Rightarrow> string \<Rightarrow> map_state \<Rightarrow> js_error + map_state" where
  "createMarker locationName coords popupText w =
     (case coords of
        None \<Rightarrow> Inl TypeError
      | Some c \<Rightarrow>
          let marker = Suc (lastId w) in
          Inr ((onMap (addTo marker (Marker c popupText)) w)
                 \<lparr>lastId := marker, markersRef := setKey locationName marker (markersRef w)\<rparr>))"

text \<open>
  The first half of the effect: every marker of \<open>markersRef\<close> is removed from the map,
  \<open>markersRef\<close> is reset to the empty object, and the polyline of \<open>polylineRef\<close>, if
  there is one, is removed and the ref reset.
\<close>

definition clearLayers :: "map_state \<Rightarrow> map_state" where
  "clearLayers w =
     (let w1 = (onMap (\<lambda>m. fold removeLayer (map snd (markersRef w)) m) w)\<lparr>markersRef := []\<rparr>
      in case polylineRef w1 of
           None \<Rightarrow> w1
         | Some line \<Rightarrow> (onMap (removeLayer line) w1)\<lparr>polylineRef := None\<rparr>)"

text \<open>\<open>polylineRef.current = L.polyline(routePoints, ...).addTo(mapRef.current)\<close>.\<close>

definition addPolyline :: "latlng list \<Rightarrow> map_state \<Rightarrow> map_state" where
  "addPolyline points w =
     (let line = Suc (lastId w)
      in (onMap (addTo line (Polyline points)) w)\<lparr>lastId := line, polylineRef := Some line\<rparr>)"

text \<open>
  The effect that runs when \<open>routePoints\<close> or one of the three location names changes.
  It reads the route and the names from the component state.
\<close>

definition routeEffect :: "app_state \<Rightarrow> map_state \<Rightarrow> js_error + map_state" where
  "routeEffect s w =
     (if mapRef w = None \<or> length (routePoints s) = 0 then Inr w
      else
        let w0 = clearLayers w;
            start = nthOpt (routePoints s) 0;
            pickup = nthOpt (routePoints s) 1;
            dropoff = nthOpt (routePoints s) 2
        in case createMarker ''current'' start (''Current Location: '' @ currentLocation s) w0 of
             Inl e \<Rightarrow> Inl e
           | Inr w1 \<Rightarrow>
         (case createMarker ''pickup'' pickup (''Pickup: '' @ pickupLocation s) w1 of
             Inl e \<Rightarrow> Inl e
           | Inr w2 \<Rightarrow>
         (case createMarker ''dropoff'' dropoff (''Dropoff: '' @ dropoffLocation s) w2 of
             Inl e \<Rightarrow> Inl e
           | Inr w3 \<Rightarrow>
               Inr (onMap (fitBounds (List.map_filter (\<lambda>p. p) [start, pickup, dropoff]))
                      (addPolyline (routePoints s) w3)))))"

text \<open>Counting the layers of the map, by kind.\<close>

fun isMarker :: "layer \<Rightarrow> bool" where
  "isMarker (Marker c p) = True"
| "isMarker l = False"

fun isPolyline :: "layer \<Rightarrow> bool" where
  "isPolyline (Polyline ps) = True"
| "isPolyline l = False"

definition layersOn :: "map_state \<Rightarrow> (nat \<times> layer) list" where
  "layersOn w = (case mapRef w of None \<Rightarrow> [] | Some m \<Rightarrow> layers m)"

definition markerCount :: "map_state \<Rightarrow> nat" where
  "markerCount w = length (filter (\<lambda>l. isMarker (snd l)) (layersOn w))"

definition polylineCount :: "map_state \<Rightarrow> nat" where
  "polylineCount w = length (filter (\<lambda>l. isPolyline (snd l)) (layersOn w))"

text \<open>The stamps that the refs hold.\<close>

definition tracked :: "map_state \<Rightarrow> nat list" where
  "tracked w = map snd (markersRef w) @ (case polylineRef w of None \<Rightarrow> [] | Some line \<Rightarrow> [line])"

text \<open>
  What holds of the refs between effects: no stamp held by a ref or carried by a layer
  on the map is above \<open>lastId\<close>, and the layers on the map that a ref holds are exactly
  its markers and polylines.
\<close>

definition refsConsistent :: "map_state \<Rightarrow> bool" where
  "refsConsistent w =
     (list_all (\<lambda>i. i \<le> lastId w) (tracked w)
      \<and> list_all (\<lambda>l. fst l \<le> lastId w
                 \<and> (isMarker (snd l) \<or> isPolyline (snd l)) = (fst l \<in> set (tracked w)))
          (layersOn w))"

text \<open>Whether an effect ended by throwing.\<close>

definition threw :: "js_error + map_state \<Rightarrow> bool" where
  "threw res = (case res of Inl e \<Rightarrow> True | Inr w \<Rightarrow> False)"

text \<open>A route of three points, one of four points, and states that hold them.\<close>

definition route3 :: "latlng list" where
  "route3 = [(41, -87), (38, -90), (33, -84)]"

definition route4 :: "latlng list" where
  "route4 = [(41, -87), (38, -90), (36, -86), (33, -84)]"

definition mapReady :: map_state where
  "mapReady = initMapEffect mountedRefs"

section \<open>Properties\<close>

subsection \<open>Evaluation rules for the number text\<close>

lemma digits_small: "n < 10 \<Longrightarrow> digits n = [digitChar n]"
  by (subst digits.simps) simp

lemma digits_large: "\<not> n < 10 \<Longrightarrow> digits n = digits (n div 10) @ [digitChar (n mod 10)]"
  by (subst digits.simps) simp

lemma floor_numeral_div: "\<lfloor>numeral a / numeral b :: rat\<rfloor> = numeral a div numeral b"
  using floor_divide_of_int_eq [of "numeral a" "numeral b", where ?'a = rat] by simp

lemmas text_eval = toFixed1_def render_def digits_small digits_large digitChar_def
  floor_numeral_div

lemma toFixed1_close: "\<bar>parseFloat (toFixed1 x) - x\<bar> \<le> 1 / 20"
proof -
  have "\<bar>of_int \<lfloor>\<bar>x\<bar> * 10 + 1 / 2\<rfloor> - \<bar>x\<bar> * 10\<bar> \<le> (1 / 2 :: rat)"
    by linarith
  then show ?thesis
    unfolding parseFloat_def toFixed1_def by (auto simp: abs_if split: if_splits)
qed

subsection \<open>Trip hours\<close>



subsection \<open>Remaining cycle hours\<close>

lemma remaining_at_example:
  assumes "t = 30"
  shows "remainingCycleHours (45 / 2) t = 35 / 2"
  using assms by (simp add: remainingCycleHours_def)

lemma shown_17_5: "render (toFixed1 (35 / 2)) = ''17.5''"
  by (simp add: text_eval)

lemma parse_30: "parseFloat (toFixed1 30) = 30"
  by (simp add: toFixed1_def parseFloat_def floor_numeral_div)

lemma toFixed1_sign: "0 \<le> x \<Longrightarrow> \<not> negative (toFixed1 x)"
  by (simp add: toFixed1_def)

lemma toFixed1_below_tenth:
  assumes "0 \<le> x" and "x < 1 / 20"
  shows "render (toFixed1 x) = ''0.0''"
proof -
  have "\<lfloor>x * 10 + 1 / 2\<rfloor> = 0"
    using assms by (simp add: floor_eq_iff)
  then show ?thesis
    using assms(1) by (simp add: toFixed1_def render_def digits_small digitChar_def)
qed

lemma parse_text_lower:
  assumes "0 \<le> x"
  shows "x - 1 / 20 < parseFloat (toFixed1 x)"
proof -
  have "0 \<le> \<lfloor>x * 10 + 1 / 2\<rfloor>"
    using assms by simp
  then have "parseFloat (toFixed1 x) = of_int \<lfloor>x * 10 + 1 / 2\<rfloor> / 10"
    using assms by (simp add: parseFloat_def toFixed1_def)
  moreover have "x * 10 + 1 / 2 - 1 < of_int \<lfloor>x * 10 + 1 / 2\<rfloor>"
    by linarith
  ultimately show ?thesis
    by simp
qed

lemma max_zero_close:
  fixes a b :: rat
  shows "\<bar>max 0 a - max 0 b\<bar> \<le> \<bar>a - b\<bar>"
  by (simp add: max_def abs_if)

text \<open>
  C3 (as stated, refuted). With no hours used and a day of 60 driving and 9.96 on-duty
  hours, the sum 69.96 is below 70 and the formula gives 0.04, yet the inline expression
  and \<open>calculateRemainingCycle\<close> both show \<open>0.0\<close>: the result is 0 although the sum is
  not 70 or more, and it is not the value of the formula.
\<close>

theorem C3_zero_below_limit_counterexample:
  "totalTripHours nearLimitLogs = 1749 / 25
   \<and> 0 + totalTripHours nearLimitLogs < 70
   \<and> max 0 (70 - (0 + totalTripHours nearLimitLogs)) = 1 / 25
   \<and> render (remainingCycleNote 0 nearLimitLogs) = ''0.0''
   \<and> render (calculateRemainingCycle 0 nearLimitLogs) = ''0.0''
   \<and> parseFloat (remainingCycleNote 0 nearLimitLogs) = 0
   \<and> parseFloat (calculateRemainingCycle 0 nearLimitLogs) = 0"
proof -
  have total: "totalTripHours nearLimitLogs = 1749 / 25"
    by (simp add: totalTripHours_def nearLimitLogs_def)
  have inline: "remainingCycleNote 0 nearLimitLogs = Fixed1 False 0"
    by (simp add: remainingCycleNote_def remainingCycleHours_def total toFixed1_def
        floor_numeral_div)
  have read_back: "parseFloat (calculateTotalTripHours nearLimitLogs) = 70"
    by (simp add: calculateTotalTripHours_def total toFixed1_def parseFloat_def floor_numeral_div)
  have helper: "calculateRemainingCycle 0 nearLimitLogs = Fixed1 False 0"
    by (simp add: calculateRemainingCycle_def read_back remainingCycleHours_def toFixed1_def)
  have zero: "render (Fixed1 False 0) = ''0.0''" "parseFloat (Fixed1 False 0) = 0"
    by (simp_all add: render_def digits_small digitChar_def parseFloat_def)
  show ?thesis
    using zero by (simp add: total inline helper)
qed

text \<open>
  C3 (amended). Both versions show \<open>max 0 (70 - (used + trip))\<close> as a text with one
  decimal; \<open>calculateRemainingCycle\<close> first rounds the trip hours to one decimal. The
  shown value is never negative. For non-negative inputs it lies within 0.05 (inline
  expression) or 0.1 (\<open>calculateRemainingCycle\<close>) of \<open>max 0 (70 - (used + trip))\<close>. It
  is \<open>0.0\<close> whenever \<open>used + trip \<ge> 70\<close>, and in the inline expression already when
  \<open>used + trip > 69.95\<close>. With 22.5 hours used and logs whose driving plus on-duty hours
  sum to 30 both versions show \<open>17.5\<close>. With 22.53 hours used and 30.03 trip hours the
  inline expression shows \<open>17.4\<close> and \<open>calculateRemainingCycle\<close> shows \<open>17.5\<close>.
\<close>

theorem C3_remaining_cycle_shown:
  "\<not> negative (remainingCycleNote used days)
   \<and> \<not> negative (calculateRemainingCycle used days)
   \<and> 0 \<le> parseFloat (remainingCycleNote used days)
   \<and> 0 \<le> parseFloat (calculateRemainingCycle used days)
   \<and> (0 \<le> used \<and> 0 \<le> totalTripHours days \<longrightarrow>
        \<bar>parseFloat (remainingCycleNote used days)
           - max 0 (70 - (used + totalTripHours days))\<bar> \<le> 1 / 20
        \<and> \<bar>parseFloat (calculateRemainingCycle used days)
           - max 0 (70 - (used + totalTripHours days))\<bar> \<le> 1 / 10)
   \<and> (6995 / 100 < used + totalTripHours days \<longrightarrow>
        render (remainingCycleNote used days) = ''0.0'')
   \<and> (0 \<le> totalTripHours days \<and> 70 \<le> used + totalTripHours days \<longrightarrow>
        render (remainingCycleNote used days) = ''0.0''
        \<and> render (calculateRemainingCycle used days) = ''0.0'')
   \<and> (totalTripHours days = 30 \<longrightarrow>
        render (remainingCycleNote (45 / 2) days) = ''17.5''
        \<and> render (calculateRemainingCycle (45 / 2) days) = ''17.5'')
   \<and> render (remainingCycleNote (2253 / 100) offTenthLogs) = ''17.4''
   \<and> render (calculateRemainingCycle (2253 / 100) offTenthLogs) = ''17.5''"
proof -
  let ?T = "totalTripHours days"
  let ?R = "parseFloat (calculateTotalTripHours days)"
  have note_eq: "remainingCycleNote u days = toFixed1 (max 0 (70 - (u + ?T)))" for u
    by (simp add: remainingCycleNote_def remainingCycleHours_def)
  have calc_eq: "calculateRemainingCycle u days = toFixed1 (max 0 (70 - (u + ?R)))" for u
    by (simp add: calculateRemainingCycle_def remainingCycleHours_def)
  have sign1: "\<not> negative (remainingCycleNote used days)"
    unfolding note_eq by (rule toFixed1_sign) simp
  have sign2: "\<not> negative (calculateRemainingCycle used days)"
    unfolding calc_eq by (rule toFixed1_sign) simp
  have pos1: "0 \<le> parseFloat (remainingCycleNote used days)"
    using sign1 by (simp add: parseFloat_def)
  have pos2: "0 \<le> parseFloat (calculateRemainingCycle used days)"
    using sign2 by (simp add: parseFloat_def)
  have near1: "\<bar>parseFloat (remainingCycleNote used days) - max 0 (70 - (used + ?T))\<bar> \<le> 1 / 20"
    unfolding note_eq by (rule toFixed1_close)
  have read: "\<bar>?R - ?T\<bar> \<le> 1 / 20"
    unfolding calculateTotalTripHours_def by (rule toFixed1_close)
  have near2: "\<bar>parseFloat (calculateRemainingCycle used days) - max 0 (70 - (used + ?T))\<bar> \<le> 1 / 10"
  proof -
    have a: "\<bar>parseFloat (calculateRemainingCycle used days) - max 0 (70 - (used + ?R))\<bar> \<le> 1 / 20"
      unfolding calc_eq by (rule toFixed1_close)
    have b: "\<bar>max 0 (70 - (used + ?R)) - max 0 (70 - (used + ?T))\<bar>
        \<le> \<bar>(70 - (used + ?R)) - (70 - (used + ?T))\<bar>"
      by (rule max_zero_close)
    have c: "\<bar>(70 - (used + ?R)) - (70 - (used + ?T))\<bar> = \<bar>?R - ?T\<bar>"
      by (simp add: abs_if)
    show ?thesis
      using a b c read by linarith
  qed
  have early: "render (remainingCycleNote used days) = ''0.0''" if "6995 / 100 < used + ?T"
    unfolding note_eq
    by (rule toFixed1_below_tenth) (use that in \<open>simp_all add: max_def\<close>)
  have full2: "render (calculateRemainingCycle used days) = ''0.0''"
    if "0 \<le> ?T \<and> 70 \<le> used + ?T"
  proof -
    have "?T - 1 / 20 < ?R"
      unfolding calculateTotalTripHours_def by (rule parse_text_lower) (use that in simp)
    then have "70 - (used + ?R) < 1 / 20"
      using that by linarith
    then show ?thesis
      unfolding calc_eq by (intro toFixed1_below_tenth) (simp_all add: max_def)
  qed
  have example: "render (remainingCycleNote (45 / 2) days) = ''17.5''
        \<and> render (calculateRemainingCycle (45 / 2) days) = ''17.5''"
    if thirty: "?T = 30"
  proof -
    have core: "remainingCycleHours (45 / 2) 30 = 35 / 2"
      by (rule remaining_at_example) simp
    have v2: "render (calculateRemainingCycle (45 / 2) days) = ''17.5''"
      by (simp add: calculateRemainingCycle_def calculateTotalTripHours_def thirty parse_30
          core shown_17_5)
    have v1: "render (remainingCycleNote (45 / 2) days) = ''17.5''"
      by (simp add: remainingCycleNote_def thirty core shown_17_5)
    show ?thesis
      using v1 v2 by simp
  qed
  have full1: "render (remainingCycleNote used days) = ''0.0''" if "0 \<le> ?T \<and> 70 \<le> used + ?T"
    by (rule early) (use that in linarith)
  have off: "totalTripHours offTenthLogs = 3003 / 100"
    by (simp add: totalTripHours_def offTenthLogs_def)
  have inline: "render (remainingCycleNote (2253 / 100) offTenthLogs) = ''17.4''"
    by (simp add: remainingCycleNote_def remainingCycleHours_def off text_eval)
  have read_back: "parseFloat (calculateTotalTripHours offTenthLogs) = 30"
    by (simp add: calculateTotalTripHours_def off toFixed1_def parseFloat_def floor_numeral_div)
  have helper: "render (calculateRemainingCycle (2253 / 100) offTenthLogs) = ''17.5''"
    by (simp add: calculateRemainingCycle_def read_back remainingCycleHours_def text_eval)
  have general: "\<not> negative (remainingCycleNote used days)
   \<and> \<not> negative (calculateRemainingCycle used days)
   \<and> 0 \<le> parseFloat (remainingCycleNote used days)
   \<and> 0 \<le> parseFloat (calculateRemainingCycle used days)
   \<and> (0 \<le> used \<and> 0 \<le> totalTripHours days \<longrightarrow>
        \<bar>parseFloat (remainingCycleNote used days)
           - max 0 (70 - (used + totalTripHours days))\<bar> \<le> 1 / 20
        \<and> \<bar>parseFloat (calculateRemainingCycle used days)
           - max 0 (70 - (used + totalTripHours days))\<bar> \<le> 1 / 10)
   \<and> (6995 / 100 < used + totalTripHours days \<longrightarrow>
        render (remainingCycleNote used days) = ''0.0'')
   \<and> (0 \<le> totalTripHours days \<and> 70 \<le> used + totalTripHours days \<longrightarrow>
        render (remainingCycleNote used days) = ''0.0''
        \<and> render (calculateRemainingCycle used days) = ''0.0'')
   \<and> (totalTripHours days = 30 \<longrightarrow>
        render (remainingCycleNote (45 / 2) days) = ''17.5''
        \<and> render (calculateRemainingCycle (45 / 2) days) = ''17.5'')"
    using sign1 sign2 pos1 pos2 near1 near2 early full1 full2 example by blast
  show ?thesis
    using general inline helper by simp
qed

theorem C3_remaining_cycle_shown_witness:
  "(0::rat) \<le> 45 / 2 \<and> 0 \<le> totalTripHours exampleLogs \<and> totalTripHours exampleLogs = 30
   \<and> \<bar>parseFloat (remainingCycleNote (45 / 2) exampleLogs) - 35 / 2\<bar> \<le> 1 / 20
   \<and> \<bar>parseFloat (calculateRemainingCycle (45 / 2) exampleLogs) - 35 / 2\<bar> \<le> 1 / 10
   \<and> render (remainingCycleNote (45 / 2) exampleLogs) = ''17.5''
   \<and> render (calculateRemainingCycle (45 / 2) exampleLogs) = ''17.5''
   \<and> 6995 / 100 < 0 + totalTripHours nearLimitLogs
   \<and> render (remainingCycleNote 0 nearLimitLogs) = ''0.0''
   \<and> 0 \<le> totalTripHours (exampleLogs @ exampleLogs @ exampleLogs)
   \<and> 70 \<le> 0 + totalTripHours (exampleLogs @ exampleLogs @ exampleLogs)
   \<and> render (calculateRemainingCycle 0 (exampleLogs @ exampleLogs @ exampleLogs)) = ''0.0''"
proof -
  have thirty: "totalTripHours exampleLogs = 30"
    by (simp add: totalTripHours_def exampleLogs_def)
  have near: "totalTripHours nearLimitLogs = 1749 / 25"
    by (simp add: totalTripHours_def nearLimitLogs_def)
  have ninety: "totalTripHours (exampleLogs @ exampleLogs @ exampleLogs) = 90"
    by (simp add: totalTripHours_def exampleLogs_def)
  note a = C3_remaining_cycle_shown [of "45 / 2" exampleLogs]
  note b = C3_remaining_cycle_shown [of 0 nearLimitLogs]
  note c = C3_remaining_cycle_shown [of 0 "exampleLogs @ exampleLogs @ exampleLogs"]
  show ?thesis
    using a b c by (simp add: thirty near ninety)
qed

subsection \<open>Distance and driving time line\<close>

text \<open>
  C5 (as stated, refuted). The placeholder is not marked. For a stored distance of 750
  miles the hours text is the placeholder's \<open>13.6\<close>, the distance text is the
  placeholder's \<open>750\<close> followed by \<open>.0\<close>, and the two lines read the same apart from
  these two characters; the numbers they show are equal.
\<close>

theorem C5_placeholder_not_marked_counterexample:
  "drivingTimeText (Some 750) = drivingTimeText None
   \<and> distanceText (Some 750) = distanceText None @ ''.0''
   \<and> estimateLine None = ''Estimated Distance: ~750 miles | Est. Driving Time: ~13.6 hrs''
   \<and> estimateLine (Some 750) = ''Estimated Distance: ~750.0 miles | Est. Driving Time: ~13.6 hrs''
   \<and> parseFloat (toFixed1 750) = 750
   \<and> parseFloat (toFixed1 (estimatedDrivingHours 750)) = 136 / 10"
proof -
  have miles: "toFixed1 750 = Fixed1 False 7500"
    by (simp add: toFixed1_def floor_numeral_div)
  have hours: "toFixed1 (estimatedDrivingHours 750) = Fixed1 False 136"
    by (simp add: estimatedDrivingHours_def toFixed1_def floor_numeral_div)
  have texts: "render (Fixed1 False 7500) = ''750.0''" "render (Fixed1 False 136) = ''13.6''"
    by (simp_all add: render_def digits_small digits_large digitChar_def)
  have numbers: "parseFloat (Fixed1 False 7500) = 750" "parseFloat (Fixed1 False 136) = 136 / 10"
    by (simp_all add: parseFloat_def)
  show ?thesis
    by (simp add: estimateLine_def distanceText_def drivingTimeText_def miles hours texts numbers)
qed

text \<open>
  C5 (amended). With a stored distance (of magnitude below \<open>10^21\<close>) the line shows the
  distance and the distance divided by 55, each as a text with one decimal within 0.05
  of the value; 770 miles show \<open>770.0\<close> and \<open>14.0\<close>. With no stored distance it shows
  the fixed pair \<open>750\<close> and \<open>13.6\<close>. The placeholder carries no mark: the wording
  of the line is the same in both cases, its hours text is the text of every stored
  distance from 746 to 750 miles, and its distance text differs from the text of a
  stored 750 miles only by the missing \<open>.0\<close>.
\<close>

theorem C5_distance_line_shown:
  "estimatedDrivingHours d = d / 55
   \<and> (\<bar>d\<bar> < 10 ^ 21 \<longrightarrow>
        (\<exists>f. distanceText (Some d) = render f \<and> \<bar>parseFloat f - d\<bar> \<le> 1 / 20)
        \<and> (\<exists>f. drivingTimeText (Some d) = render f \<and> \<bar>parseFloat f - d / 55\<bar> \<le> 1 / 20))
   \<and> distanceText (Some 770) = ''770.0''
   \<and> drivingTimeText (Some 770) = ''14.0''
   \<and> distanceText None = ''750''
   \<and> drivingTimeText None = ''13.6''
   \<and> estimateLine td =
        ''Estimated Distance: ~'' @ distanceText td
          @ '' miles | Est. Driving Time: ~'' @ drivingTimeText td @ '' hrs''
   \<and> (746 \<le> d \<and> d \<le> 750 \<longrightarrow> drivingTimeText (Some d) = drivingTimeText None)
   \<and> distanceText (Some 750) = distanceText None @ ''.0''"
proof -
  have quotient: "estimatedDrivingHours d = d / 55"
    by (simp add: estimatedDrivingHours_def)
  have miles: "\<exists>f. distanceText (Some d) = render f \<and> \<bar>parseFloat f - d\<bar> \<le> 1 / 20"
  proof (intro exI conjI)
    show "distanceText (Some d) = render (toFixed1 d)"
      by (simp add: distanceText_def)
    show "\<bar>parseFloat (toFixed1 d) - d\<bar> \<le> 1 / 20"
      by (rule toFixed1_close)
  qed
  have hours: "\<exists>f. drivingTimeText (Some d) = render f \<and> \<bar>parseFloat f - d / 55\<bar> \<le> 1 / 20"
  proof (intro exI conjI)
    show "drivingTimeText (Some d) = render (toFixed1 (d / 55))"
      by (simp add: drivingTimeText_def estimatedDrivingHours_def)
    show "\<bar>parseFloat (toFixed1 (d / 55)) - d / 55\<bar> \<le> 1 / 20"
      by (rule toFixed1_close)
  qed
  have m770: "distanceText (Some 770) = ''770.0''"
    by (simp add: distanceText_def text_eval)
  have h770: "drivingTimeText (Some 770) = ''14.0''"
    by (simp add: drivingTimeText_def estimatedDrivingHours_def text_eval)
  have placeholder: "distanceText None = ''750''" "drivingTimeText None = ''13.6''"
    by (simp_all add: distanceText_def drivingTimeText_def)
  have wording: "estimateLine td =
        ''Estimated Distance: ~'' @ distanceText td
          @ '' miles | Est. Driving Time: ~'' @ drivingTimeText td @ '' hrs''"
    by (simp add: estimateLine_def)
  have same_hours: "drivingTimeText (Some d) = drivingTimeText None" if "746 \<le> d \<and> d \<le> 750"
  proof -
    have "136 \<le> d / 55 * 10 + 1 / 2" and "d / 55 * 10 + 1 / 2 < 137"
      using that by simp_all
    then have "\<lfloor>d / 55 * 10 + 1 / 2\<rfloor> = 136"
      by (simp add: floor_eq_iff)
    moreover have "0 \<le> d / 55"
      using that by simp
    ultimately have "toFixed1 (d / 55) = Fixed1 False 136"
      by (simp add: toFixed1_def)
    moreover have "render (Fixed1 False 136) = ''13.6''"
      by (simp add: render_def digits_small digits_large digitChar_def)
    ultimately show ?thesis
      by (simp add: drivingTimeText_def estimatedDrivingHours_def)
  qed
  have m750: "distanceText (Some 750) = distanceText None @ ''.0''"
    by (simp add: distanceText_def text_eval)
  show ?thesis
    using quotient miles hours m770 h770 placeholder wording same_hours m750 by blast
qed

theorem C5_distance_line_shown_witness:
  "\<bar>770 :: rat\<bar> < 10 ^ 21
   \<and> (\<exists>f. distanceText (Some 770) = render f \<and> \<bar>parseFloat f - 770\<bar> \<le> 1 / 20)
   \<and> (\<exists>f. drivingTimeText (Some 770) = render f \<and> \<bar>parseFloat f - 770 / 55\<bar> \<le> 1 / 20)
   \<and> (746 :: rat) \<le> 748 \<and> (748 :: rat) \<le> 750
   \<and> drivingTimeText (Some 748) = drivingTimeText None"
proof -
  have small: "\<bar>770 :: rat\<bar> < 10 ^ 21"
    by simp
  have range: "(746 :: rat) \<le> 748 \<and> (748 :: rat) \<le> 750"
    by simp
  note at770 = C5_distance_line_shown [of 770 None]
  note at748 = C5_distance_line_shown [of 748 None]
  have a: "\<exists>f. distanceText (Some 770) = render f \<and> \<bar>parseFloat f - 770\<bar> \<le> 1 / 20"
    using at770 small by blast
  have b: "\<exists>f. drivingTimeText (Some 770) = render f \<and> \<bar>parseFloat f - 770 / 55\<bar> \<le> 1 / 20"
    using at770 small by blast
  have c: "drivingTimeText (Some 748) = drivingTimeText None"
    using at748 range by blast
  show ?thesis
    using small range a b c by blast
qed

subsection \<open>Request lifecycle\<close>

lemmas settle_defs = settle_def handleSubmit_def submitStart_def catchClause_def
  finallyClause_def orElse_def displayed_def missingRouteMessage_def

lemma settle_flag: "isCalculating (settle r s) = False"
  by (simp add: settle_defs Let_def split: reply.splits option.splits)

lemma settle_failed_eq:
  assumes "\<not> signalsSuccess r"
  shows "error (settle r s) \<noteq> ''''
    \<and> settle r s = s\<lparr>error := error (settle r s), isCalculating := False\<rparr>"
proof (cases r)
  case (FetchRejected message)
  then show ?thesis by (simp add: settle_defs)
next
  case (JsonRejected ok message)
  then show ?thesis by (simp add: settle_defs)
next
  case (Json ok data)
  with assms have "\<not> (ok \<and> data_success data)"
    by (simp add: signalsSuccess_def)
  with Json show ?thesis
    by (cases "data_error data") (auto simp: settle_defs)
qed

lemma settle_failed:
  assumes "\<not> signalsSuccess r"
  shows "\<exists>m. m \<noteq> '''' \<and> settle r s = s\<lparr>error := m, isCalculating := False\<rparr>"
  using settle_failed_eq [OF assms, of s] by blast

lemma settle_stored:
  assumes "data_success d" and "data_route d = Some rt"
  shows "settle (Json True d) s =
           s\<lparr>logs := data_logs d, routePoints := route_points rt,
              totalDistance := Some (total_distance rt), isCalculating := False\<rparr>"
  using assms by (simp add: settle_defs)

lemma settle_failed_displayed:
  assumes "\<not> signalsSuccess r"
  shows "displayed (settle r s) = displayed s"
proof -
  from settle_failed [OF assms] obtain m where "settle r s = s\<lparr>error := m, isCalculating := False\<rparr>"
    by blast
  then show ?thesis by (simp add: displayed_def)
qed

lemma run_snoc: "run s (evs @ [e]) = step (run s evs) e"
  by (simp add: run_def)

text \<open>
  C10. Every call of \<open>handleSubmit\<close>, whatever its reply (a stored result, a failure
  reported by the service, a rejected \<open>fetch\<close> or an unreadable body), ends with
  \<open>isCalculating = false\<close>, so the submit button is enabled again; the same holds for the
  state after any reply has been handled in an interleaving. (Between the start of a
  call and its reply the flag is true.)
\<close>

theorem C10_flag_reset:
  "isCalculating (handleSubmit r s) = False
   \<and> \<not> submitDisabled (handleSubmit r s)
   \<and> \<not> submitDisabled (run s (evs @ [Settle n r]))
   \<and> isCalculating (submitStart s) = True"
proof -
  have whole: "isCalculating (handleSubmit r s) = False"
    by (simp add: handleSubmit_def settle_flag)
  have trace: "\<not> submitDisabled (run s (evs @ [Settle n r]))"
    by (simp add: run_snoc submitDisabled_def settle_flag)
  have start: "isCalculating (submitStart s) = True"
    by (simp add: submitStart_def)
  show ?thesis
    using whole trace start by (simp add: submitDisabled_def)
qed

text \<open>
  Every reply that does not signal success (a rejected \<open>fetch\<close>, an unreadable body,
  a non-2xx status or \<open>success = false\<close>) leaves the logs, the route points and the
  total distance as they were and sets a non-empty error message that does not depend on
  the previous one. After a prior successful call the page still shows that call's
  result, and the error message is the only state that differs.
\<close>

lemma failed_reply_keeps_result:
  assumes "\<not> signalsSuccess r"
  shows "displayed (handleSubmit r s) = displayed s
   \<and> (\<exists>m. m \<noteq> '''' \<and> handleSubmit r s = s\<lparr>error := m, isCalculating := False\<rparr>)
   \<and> error (handleSubmit r (s\<lparr>error := e\<rparr>)) = error (handleSubmit r s)
   \<and> (data_success d \<and> data_route d = Some rt \<longrightarrow>
        displayed (handleSubmit r (handleSubmit (Json True d) s0))
          = (data_logs d, route_points rt, Some (total_distance rt))
        \<and> (\<exists>m. m \<noteq> '''' \<and> handleSubmit r (handleSubmit (Json True d) s0)
                  = (handleSubmit (Json True d) s0)\<lparr>error := m\<rparr>))"
proof -
  have only_error: "\<exists>m. m \<noteq> '''' \<and> handleSubmit r t = t\<lparr>error := m, isCalculating := False\<rparr>" for t
  proof -
    from settle_failed [OF assms, of "submitStart t"]
    obtain m where "m \<noteq> ''''"
      and "settle r (submitStart t) = (submitStart t)\<lparr>error := m, isCalculating := False\<rparr>"
      by blast
    then have "m \<noteq> '''' \<and> handleSubmit r t = t\<lparr>error := m, isCalculating := False\<rparr>"
      by (simp add: handleSubmit_def submitStart_def)
    then show ?thesis by blast
  qed
  have kept: "displayed (handleSubmit r t) = displayed t" for t
    using only_error [of t] by (auto simp: displayed_def)
  have replaced: "error (handleSubmit r (s\<lparr>error := e\<rparr>)) = error (handleSubmit r s)"
    by (simp add: settle_defs Let_def split: reply.splits option.splits)
  have after_success:
    "displayed (handleSubmit r (handleSubmit (Json True d) s0))
          = (data_logs d, route_points rt, Some (total_distance rt))
        \<and> (\<exists>m. m \<noteq> '''' \<and> handleSubmit r (handleSubmit (Json True d) s0)
                  = (handleSubmit (Json True d) s0)\<lparr>error := m\<rparr>)"
    if good: "data_success d" "data_route d = Some rt"
  proof -
    let ?prior = "handleSubmit (Json True d) s0"
    have prior: "?prior = (submitStart s0)\<lparr>logs := data_logs d, routePoints := route_points rt,
              totalDistance := Some (total_distance rt), isCalculating := False\<rparr>"
      unfolding handleSubmit_def by (rule settle_stored [OF good])
    have shown: "displayed ?prior = (data_logs d, route_points rt, Some (total_distance rt))"
      by (simp add: prior displayed_def)
    have idle: "isCalculating ?prior = False"
      by (simp add: prior)
    from only_error [of ?prior] obtain m
      where m: "m \<noteq> ''''" "handleSubmit r ?prior = ?prior\<lparr>error := m, isCalculating := False\<rparr>"
      by blast
    have "?prior\<lparr>error := m, isCalculating := False\<rparr> = ?prior\<lparr>error := m\<rparr>"
      using idle by simp
    with m have "m \<noteq> '''' \<and> handleSubmit r ?prior = ?prior\<lparr>error := m\<rparr>"
      by simp
    then have "\<exists>m. m \<noteq> '''' \<and> handleSubmit r ?prior = ?prior\<lparr>error := m\<rparr>"
      by blast
    then show ?thesis
      using kept [of ?prior] shown by simp
  qed
  show ?thesis
    using kept [of s] only_error [of s] replaced after_success by blast
qed

text \<open>
  C6 (the code departs from it). After a successful call that stored \<open>shortLogs\<close>, a
  route and 770 miles, a reply with status 200 and \<open>success: true\<close> whose body has logs
  and no route ends in the \<open>catch\<close> clause: the error message is set, the route points
  and the distance are kept, but \<open>setLogs\<close> has already run, so the stored logs are
  those of the failed call.
\<close>

theorem C6_missing_route_overwrites_logs:
  "signalsSuccess (Json True payloadNoRoute)
   \<and> displayed (handleSubmit (Json True payloadA) initialState)
        = (shortLogs, [(41, -87), (38, -90), (33, -84)], Some 770)
   \<and> displayed (handleSubmit (Json True payloadNoRoute) (handleSubmit (Json True payloadA) initialState))
        = (exampleLogs, [(41, -87), (38, -90), (33, -84)], Some 770)
   \<and> error (handleSubmit (Json True payloadNoRoute) (handleSubmit (Json True payloadA) initialState))
        = missingRouteMessage
   \<and> missingRouteMessage \<noteq> ''''
   \<and> exampleLogs \<noteq> shortLogs"
proof -
  have differ: "exampleLogs \<noteq> shortLogs"
    by (simp add: exampleLogs_def shortLogs_def)
  have message: "missingRouteMessage \<noteq> ''''"
    by (simp add: missingRouteMessage_def)
  have first: "handleSubmit (Json True payloadA) initialState
      = initialState\<lparr>logs := shortLogs, routePoints := [(41, -87), (38, -90), (33, -84)],
          totalDistance := Some 770\<rparr>"
    by (simp add: handleSubmit_def submitStart_def settle_def finallyClause_def payloadA_def
        initialState_def)
  have second: "handleSubmit (Json True payloadNoRoute)
        (initialState\<lparr>logs := shortLogs, routePoints := [(41, -87), (38, -90), (33, -84)],
          totalDistance := Some 770\<rparr>)
      = initialState\<lparr>logs := exampleLogs, routePoints := [(41, -87), (38, -90), (33, -84)],
          totalDistance := Some 770, error := missingRouteMessage\<rparr>"
    using message
    by (simp add: handleSubmit_def submitStart_def settle_def finallyClause_def catchClause_def
        orElse_def payloadNoRoute_def initialState_def)
  have signal: "signalsSuccess (Json True payloadNoRoute)"
    by (simp add: signalsSuccess_def payloadNoRoute_def)
  show ?thesis
    using differ message signal by (simp add: first second displayed_def)
qed



text \<open>
  C1 (as stated, refuted). In \<open>raceTrace\<close> call 1 is submitted first and call 2 while
  call 1 is in flight; the reply of call 2 (\<open>payloadB\<close>) arrives first and the reply of
  call 1 (\<open>payloadA\<close>) last. The page ends up showing the payload of call 1, the earlier
  call, and not that of call 2.
\<close>

theorem C1_stale_reply_counterexample:
  "displayed (run initialState raceTrace) = (shortLogs, [(41, -87), (38, -90), (33, -84)], Some 770)
   \<and> displayed (run initialState raceTrace)
        \<noteq> (exampleLogs, [(40, -74), (39, -75), (38, -77)], Some 225)
   \<and> data_logs payloadB = exampleLogs
   \<and> data_route payloadB
        = Some \<lparr>route_points = [(40, -74), (39, -75), (38, -77)], total_distance = 225\<rparr>"
  by (simp add: run_def raceTrace_def settle_defs payloadA_def payloadB_def)

lemma arrivals_append: "arrivals (xs @ ys) = arrivals xs @ arrivals ys"
  by (induction xs rule: arrivals.induct) simp_all

lemma map_filter_snoc:
  "List.map_filter f (xs @ [x]) =
     List.map_filter f xs @ (case f x of None \<Rightarrow> [] | Some y \<Rightarrow> [y])"
  by (induction xs) (simp_all add: List.map_filter_simps split: option.splits)

lemma lastStored_snoc:
  "lastStored (rs @ [r]) = (case storedResult r of None \<Rightarrow> lastStored rs | Some res \<Rightarrow> Some res)"
  by (cases "storedResult r") (simp_all add: lastStored_def map_filter_snoc)

lemma settle_complete:
  assumes "storedResult r = Some res"
  shows "displayed (settle r s) = res"
proof (cases r)
  case (Json ok data)
  with assms have ok: "ok \<and> data_success data"
    by (simp add: storedResult_def split: if_splits)
  with assms Json obtain route where route: "data_route data = Some route"
    and res: "res = (data_logs data, route_points route, Some (total_distance route))"
    by (auto simp: storedResult_def split: option.splits)
  have "settle (Json True data) s =
           s\<lparr>logs := data_logs data, routePoints := route_points route,
              totalDistance := Some (total_distance route), isCalculating := False\<rparr>"
    using ok route by (intro settle_stored) simp_all
  then show ?thesis
    using Json ok res by (simp add: displayed_def)
qed (use assms in \<open>simp_all add: storedResult_def\<close>)

lemma run_displayed:
  assumes "list_all complete (arrivals evs)"
  shows "displayed (run s evs) =
           (case lastStored (arrivals evs) of None \<Rightarrow> displayed s | Some res \<Rightarrow> res)"
  using assms
proof (induction evs rule: rev_induct)
  case Nil
  then show ?case
    by (simp add: run_def lastStored_def)
next
  case (snoc e evs)
  then have before: "displayed (run s evs) =
           (case lastStored (arrivals evs) of None \<Rightarrow> displayed s | Some res \<Rightarrow> res)"
    by (simp add: arrivals_append)
  show ?case
  proof (cases e)
    case (Submit n)
    then show ?thesis
      using before by (simp add: run_snoc arrivals_append submitStart_def displayed_def)
  next
    case (Settle n r)
    from snoc.prems Settle have whole: "complete r"
      by (simp add: arrivals_append)
    show ?thesis
    proof (cases "storedResult r")
      case None
      with whole have "\<not> signalsSuccess r"
        by (simp add: complete_def)
      then have "displayed (settle r (run s evs)) = displayed (run s evs)"
        by (rule settle_failed_displayed)
      then show ?thesis
        using before Settle None by (simp add: run_snoc arrivals_append lastStored_snoc)
    next
      case (Some res)
      then have "displayed (settle r (run s evs)) = res"
        by (rule settle_complete)
      then show ?thesis
        using Settle Some by (simp add: run_snoc arrivals_append lastStored_snoc)
    qed
  qed
qed

text \<open>
  C1 (amended). \<open>handleSubmit\<close> keeps no sequence number: a reply is applied when it
  arrives, whichever call it answers. For every interleaving of calls whose replies
  are complete (a reply that signals success carries its route), the result shown at
  the end is the one stored by the last reply, in order of arrival, that signals
  success, and the result shown before if there is none; the number of the call plays
  no part. So when call 2 starts while call 1 is in flight and the successful reply of
  call 1 arrives after the reply of call 2, the page ends up showing the payload of
  call 1. What stands against overlapping calls is only the submit button, disabled
  from the start of a call until a reply has been handled.
\<close>

theorem C1_last_arrival_wins:
  "(list_all complete (arrivals evs) \<longrightarrow>
      displayed (run s evs) =
        (case lastStored (arrivals evs) of None \<Rightarrow> displayed s | Some res \<Rightarrow> res))
   \<and> (complete r2 \<and> data_success d \<and> data_route d = Some rt \<longrightarrow>
        displayed (run s [Submit 1, Submit 2, Settle 2 r2, Settle 1 (Json True d)])
          = (data_logs d, route_points rt, Some (total_distance rt)))
   \<and> submitDisabled (run s (evs @ [Submit n]))"
proof -
  have race: "displayed (run s [Submit 1, Submit 2, Settle 2 r2, Settle 1 (Json True d)])
          = (data_logs d, route_points rt, Some (total_distance rt))"
    if pre: "complete r2 \<and> data_success d \<and> data_route d = Some rt"
  proof -
    have last_one: "storedResult (Json True d)
        = Some (data_logs d, route_points rt, Some (total_distance rt))"
      using pre by (simp add: storedResult_def)
    then have whole: "complete (Json True d)"
      using pre by (simp add: complete_def signalsSuccess_def)
    have "lastStored ([r2] @ [Json True d])
        = Some (data_logs d, route_points rt, Some (total_distance rt))"
      unfolding lastStored_snoc by (simp add: last_one)
    then show ?thesis
      using run_displayed [of "[Submit 1, Submit 2, Settle 2 r2, Settle 1 (Json True d)]" s]
        pre whole
      by simp
  qed
  have gate: "submitDisabled (run s (evs @ [Submit n]))"
    by (simp add: run_snoc submitStart_def submitDisabled_def)
  show ?thesis
    using run_displayed [of evs s] race gate by blast
qed

theorem C1_last_arrival_wins_witness:
  "list_all complete (arrivals raceTrace)
   \<and> lastStored (arrivals raceTrace)
        = Some (shortLogs, [(41, -87), (38, -90), (33, -84)], Some 770)
   \<and> displayed (run initialState raceTrace)
        = (shortLogs, [(41, -87), (38, -90), (33, -84)], Some 770)
   \<and> complete (Json False payloadFailed) \<and> data_success payloadA
   \<and> data_route payloadA
        = Some \<lparr>route_points = [(41, -87), (38, -90), (33, -84)], total_distance = 770\<rparr>
   \<and> displayed (run initialState
          [Submit 1, Submit 2, Settle 2 (Json False payloadFailed), Settle 1 (Json True payloadA)])
        = (shortLogs, [(41, -87), (38, -90), (33, -84)], Some 770)"
proof -
  have storedA: "storedResult (Json True payloadA)
      = Some (shortLogs, [(41, -87), (38, -90), (33, -84)], Some 770)"
    by (simp add: storedResult_def payloadA_def)
  have storedB: "storedResult (Json True payloadB)
      = Some (exampleLogs, [(40, -74), (39, -75), (38, -77)], Some 225)"
    by (simp add: storedResult_def payloadB_def)
  have storedF: "storedResult (Json False payloadFailed) = None"
    by (simp add: storedResult_def)
  have signals: "signalsSuccess (Json True payloadA)" "signalsSuccess (Json True payloadB)"
    "\<not> signalsSuccess (Json False payloadFailed)"
    by (simp_all add: signalsSuccess_def payloadA_def payloadB_def)
  have whole: "complete (Json True payloadA)" "complete (Json True payloadB)"
    "complete (Json False payloadFailed)"
    by (simp_all add: complete_def storedA storedB storedF signals)
  have all: "list_all complete (arrivals raceTrace)"
    by (simp add: raceTrace_def whole)
  have last_one: "lastStored (arrivals raceTrace)
      = Some (shortLogs, [(41, -87), (38, -90), (33, -84)], Some 770)"
    by (simp add: raceTrace_def lastStored_def List.map_filter_simps storedA storedB)
  have good: "data_success payloadA" "data_route payloadA
        = Some \<lparr>route_points = [(41, -87), (38, -90), (33, -84)], total_distance = 770\<rparr>"
    "data_logs payloadA = shortLogs"
    by (simp_all add: payloadA_def)
  note general = C1_last_arrival_wins [of raceTrace initialState "Json False payloadFailed" payloadA
      "\<lparr>route_points = [(41, -87), (38, -90), (33, -84)], total_distance = 770\<rparr>" 1]
  show ?thesis
    using general all last_one whole good by simp
qed

subsection \<open>The route effect\<close>

lemma fold_removeLayer:
  "fold removeLayer ids m = m\<lparr>layers := filter (\<lambda>l. fst l \<notin> set ids) (layers m)\<rparr>"
proof (induction ids arbitrary: m)
  case Nil
  then show ?case by simp
next
  case (Cons i ids)
  then show ?case by (simp add: removeLayer_def conj_commute)
qed

lemma clearLayers_eq:
  assumes "mapRef w = Some m"
  shows "clearLayers w =
           w\<lparr>mapRef := Some (m\<lparr>layers := filter (\<lambda>l. fst l \<notin> set (tracked w)) (layers m)\<rparr>),
             markersRef := [], polylineRef := None\<rparr>"
  using assms
  by (cases "polylineRef w")
    (simp_all add: clearLayers_def onMap_def fold_removeLayer tracked_def removeLayer_def Let_def
      conj_commute)

lemma createMarker_fresh:
  assumes "mapRef w = Some m" and "\<forall>l \<in> set (layers m). fst l \<le> lastId w"
    and "k \<notin> set (map fst (markersRef w))"
  shows "createMarker k (Some c) p w =
           Inr (w\<lparr>mapRef := Some (m\<lparr>layers := layers m @ [(Suc (lastId w), Marker c p)]\<rparr>),
                  lastId := Suc (lastId w),
                  markersRef := markersRef w @ [(k, Suc (lastId w))]\<rparr>)"
proof -
  have "Suc (lastId w) \<notin> set (map fst (layers m))"
    using assms(2) by fastforce
  then show ?thesis
    using assms(1,3) by (simp add: createMarker_def onMap_def addTo_def setKey_def Let_def)
qed

lemma addPolyline_fresh:
  assumes "mapRef w = Some m" and "\<forall>l \<in> set (layers m). fst l \<le> lastId w"
  shows "addPolyline ps w =
           w\<lparr>mapRef := Some (m\<lparr>layers := layers m @ [(Suc (lastId w), Polyline ps)]\<rparr>),
             lastId := Suc (lastId w), polylineRef := Some (Suc (lastId w))\<rparr>"
proof -
  have "Suc (lastId w) \<notin> set (map fst (layers m))"
    using assms(2) by fastforce
  then show ?thesis
    using assms(1) by (simp add: addPolyline_def onMap_def addTo_def Let_def)
qed


lemma routeEffect_eq:
  assumes m: "mapRef w = Some m" and ok: "refsConsistent w"
    and pts: "routePoints s = a # b # c # rest"
  shows "routeEffect s w =
    Inr (w\<lparr>mapRef := Some
              \<lparr>layers = filter (\<lambda>l. fst l \<notin> set (tracked w)) (layers m) @
                 [(lastId w + 1, Marker a (''Current Location: '' @ currentLocation s)),
                  (lastId w + 2, Marker b (''Pickup: '' @ pickupLocation s)),
                  (lastId w + 3, Marker c (''Dropoff: '' @ dropoffLocation s)),
                  (lastId w + 4, Polyline (a # b # c # rest))],
               view = FitBounds [a, b, c]\<rparr>,
           markersRef := [(''current'', lastId w + 1), (''pickup'', lastId w + 2),
                          (''dropoff'', lastId w + 3)],
           polylineRef := Some (lastId w + 4),
           lastId := lastId w + 4\<rparr>)"
proof -
  let ?kept = "filter (\<lambda>l. fst l \<notin> set (tracked w)) (layers m)"
  let ?p1 = "''Current Location: '' @ currentLocation s"
  let ?p2 = "''Pickup: '' @ pickupLocation s"
  let ?p3 = "''Dropoff: '' @ dropoffLocation s"
  have bound: "\<forall>l \<in> set (layers m). fst l \<le> lastId w"
    using m ok by (simp add: refsConsistent_def layersOn_def list_all_iff)
  define m0 where "m0 = m\<lparr>layers := ?kept\<rparr>"
  define w0 where "w0 = w\<lparr>mapRef := Some m0, markersRef := [], polylineRef := None\<rparr>"
  have c0: "clearLayers w = w0"
    by (simp add: clearLayers_eq [OF m] w0_def m0_def)
  define m1 where "m1 = m0\<lparr>layers := layers m0 @ [(Suc (lastId w0), Marker a ?p1)]\<rparr>"
  define w1 where "w1 = w0\<lparr>mapRef := Some m1, lastId := Suc (lastId w0),
      markersRef := markersRef w0 @ [(''current'', Suc (lastId w0))]\<rparr>"
  have s1: "createMarker ''current'' (Some a) ?p1 w0 = Inr w1"
    unfolding w1_def m1_def
    by (rule createMarker_fresh) (use bound in \<open>auto simp: w0_def m0_def\<close>)
  define m2 where "m2 = m1\<lparr>layers := layers m1 @ [(Suc (lastId w1), Marker b ?p2)]\<rparr>"
  define w2 where "w2 = w1\<lparr>mapRef := Some m2, lastId := Suc (lastId w1),
      markersRef := markersRef w1 @ [(''pickup'', Suc (lastId w1))]\<rparr>"
  have s2: "createMarker ''pickup'' (Some b) ?p2 w1 = Inr w2"
    unfolding w2_def m2_def
    by (rule createMarker_fresh) (use bound in \<open>auto simp: w1_def m1_def w0_def m0_def\<close>)
  define m3 where "m3 = m2\<lparr>layers := layers m2 @ [(Suc (lastId w2), Marker c ?p3)]\<rparr>"
  define w3 where "w3 = w2\<lparr>mapRef := Some m3, lastId := Suc (lastId w2),
      markersRef := markersRef w2 @ [(''dropoff'', Suc (lastId w2))]\<rparr>"
  have s3: "createMarker ''dropoff'' (Some c) ?p3 w2 = Inr w3"
    unfolding w3_def m3_def
    by (rule createMarker_fresh)
      (use bound in \<open>auto simp: w2_def m2_def w1_def m1_def w0_def m0_def\<close>)
  define m4 where "m4 = m3\<lparr>layers := layers m3 @ [(Suc (lastId w3), Polyline (a # b # c # rest))]\<rparr>"
  define w4 where "w4 = w3\<lparr>mapRef := Some m4, lastId := Suc (lastId w3),
      polylineRef := Some (Suc (lastId w3))\<rparr>"
  have s4: "addPolyline (a # b # c # rest) w3 = w4"
    unfolding w4_def m4_def
    by (rule addPolyline_fresh)
      (use bound in \<open>auto simp: w3_def m3_def w2_def m2_def w1_def m1_def w0_def m0_def\<close>)
  have "routeEffect s w = Inr (onMap (fitBounds [a, b, c]) w4)"
    by (simp add: routeEffect_def Let_def m pts nthOpt_def c0 s1 s2 s3 s4 del: append.simps)
  also have "onMap (fitBounds [a, b, c]) w4 =
      w\<lparr>mapRef := Some
              \<lparr>layers = ?kept @
                 [(lastId w + 1, Marker a ?p1), (lastId w + 2, Marker b ?p2),
                  (lastId w + 3, Marker c ?p3), (lastId w + 4, Polyline (a # b # c # rest))],
               view = FitBounds [a, b, c]\<rparr>,
           markersRef := [(''current'', lastId w + 1), (''pickup'', lastId w + 2),
                          (''dropoff'', lastId w + 3)],
           polylineRef := Some (lastId w + 4),
           lastId := lastId w + 4\<rparr>"
    by (simp add: onMap_def fitBounds_def w4_def m4_def w3_def m3_def w2_def m2_def w1_def m1_def
        w0_def m0_def)
  finally show ?thesis .
qed


lemma kept_layers:
  assumes "refsConsistent w"
  shows "filter (\<lambda>l. fst l \<notin> set (tracked w)) (layersOn w) =
           filter (\<lambda>l. \<not> isMarker (snd l) \<and> \<not> isPolyline (snd l)) (layersOn w)"
  using assms by (auto simp: refsConsistent_def list_all_iff intro!: filter_cong)

lemma routeEffect_facts:
  assumes m: "mapRef w = Some m" and ok: "refsConsistent w"
    and pts: "routePoints s = a # b # c # rest"
  shows "\<exists>w'. routeEffect s w = Inr w'
    \<and> mapRef w' \<noteq> None
    \<and> refsConsistent w'
    \<and> layersOn w' =
         filter (\<lambda>l. \<not> isMarker (snd l) \<and> \<not> isPolyline (snd l)) (layersOn w) @
           [(lastId w + 1, Marker a (''Current Location: '' @ currentLocation s)),
            (lastId w + 2, Marker b (''Pickup: '' @ pickupLocation s)),
            (lastId w + 3, Marker c (''Dropoff: '' @ dropoffLocation s)),
            (lastId w + 4, Polyline (a # b # c # rest))]
    \<and> markersRef w' =
         [(''current'', lastId w + 1), (''pickup'', lastId w + 2), (''dropoff'', lastId w + 3)]
    \<and> polylineRef w' = Some (lastId w + 4)
    \<and> lastId w' = lastId w + 4
    \<and> mapsCreated w' = mapsCreated w \<and> mapsLive w' = mapsLive w"
proof -
  define K where "K = filter (\<lambda>l. \<not> isMarker (snd l) \<and> \<not> isPolyline (snd l)) (layersOn w)"
  have on: "layersOn w = layers m"
    by (simp add: layersOn_def m)
  have kept: "filter (\<lambda>l. fst l \<notin> set (tracked w)) (layers m) = K"
    using kept_layers [OF ok] by (simp add: on K_def)
  have low: "\<forall>l \<in> set K. fst l \<le> lastId w \<and> \<not> isMarker (snd l) \<and> \<not> isPolyline (snd l)"
    using ok by (auto simp: K_def refsConsistent_def list_all_iff)
  then have low': "\<forall>l \<in> set K. fst l \<le> lastId w + 4 \<and> \<not> isMarker (snd l) \<and> \<not> isPolyline (snd l)
      \<and> fst l \<noteq> lastId w + 1 \<and> fst l \<noteq> lastId w + 2 \<and> fst l \<noteq> lastId w + 3 \<and> fst l \<noteq> lastId w + 4"
    by fastforce
  note eq = routeEffect_eq [OF m ok pts, unfolded kept]
  show ?thesis
    unfolding eq K_def [symmetric] using low'
    by (simp add: refsConsistent_def layersOn_def tracked_def list_all_iff del: append.simps)
      force
qed

lemma createMarker_undefined: "createMarker k None p w = Inl TypeError"
  by (simp add: createMarker_def)

lemma routeEffect_short:
  assumes "mapRef w \<noteq> None" and "routePoints s = [a] \<or> routePoints s = [a, b]"
  shows "routeEffect s w = Inl TypeError"
proof -
  have first: "\<exists>w1. createMarker ''current'' (Some a) p (clearLayers w) = Inr w1" for p
    by (simp add: createMarker_def Let_def)
  have second: "\<exists>w2. createMarker ''pickup'' (Some b) p w1 = Inr w2" for p w1
    by (simp add: createMarker_def Let_def)
  from assms(2) show ?thesis
  proof
    assume one: "routePoints s = [a]"
    from first obtain w1
      where "createMarker ''current'' (Some a) (''Current Location: '' @ currentLocation s)
               (clearLayers w) = Inr w1"
      by blast
    then show ?thesis
      using assms(1)
      by (simp add: routeEffect_def Let_def one nthOpt_def createMarker_undefined
          del: append.simps)
  next
    assume two: "routePoints s = [a, b]"
    from first obtain w1
      where w1: "createMarker ''current'' (Some a) (''Current Location: '' @ currentLocation s)
               (clearLayers w) = Inr w1"
      by blast
    from second obtain w2
      where "createMarker ''pickup'' (Some b) (''Pickup: '' @ pickupLocation s) w1 = Inr w2"
      by blast
    then show ?thesis
      using assms(1) w1
      by (simp add: routeEffect_def Let_def two nthOpt_def createMarker_undefined
          del: append.simps)
  qed
qed

text \<open>
  The consistency of the refs holds when the component is mounted and is kept by the
  two map effects and by every run of the route effect that does not throw.
\<close>

lemma mounted_consistent: "refsConsistent mountedRefs"
  by (simp add: refsConsistent_def mountedRefs_def tracked_def layersOn_def)

lemma initMap_consistent:
  assumes "refsConsistent w"
  shows "refsConsistent (initMapEffect w)"
proof (cases "mapContainerRef w = None \<or> mapRef w \<noteq> None")
  case True
  then show ?thesis
    using assms by (simp add: initMapEffect_def)
next
  case False
  have "\<forall>i \<in> set (tracked w). i \<le> lastId w"
    using assms by (simp add: refsConsistent_def list_all_iff)
  then have "\<forall>i \<in> set (tracked w). i \<le> Suc (lastId w) \<and> i \<noteq> Suc (lastId w)"
    by fastforce
  then show ?thesis
    using False
    by (simp add: initMapEffect_def Let_def addTo_def refsConsistent_def layersOn_def
        list_all_iff tracked_def split: option.splits)
      force
qed

lemma cleanupMap_consistent:
  assumes "refsConsistent w"
  shows "refsConsistent (cleanupMapEffect w)"
  using assms
  by (cases "mapRef w")
    (simp_all add: cleanupMapEffect_def refsConsistent_def layersOn_def tracked_def)

lemma routeEffect_consistent:
  assumes ok: "refsConsistent w" and run: "routeEffect s w = Inr w'"
  shows "refsConsistent w'"
proof (cases "mapRef w")
  case None
  then show ?thesis
    using ok run by (simp add: routeEffect_def)
next
  case (Some m)
  show ?thesis
  proof (cases "routePoints s")
    case Nil
    then show ?thesis
      using ok run by (simp add: routeEffect_def)
  next
    case (Cons a qs)
    show ?thesis
    proof (cases qs)
      case Nil
      with Cons Some routeEffect_short [of w s a] run show ?thesis
        by simp
    next
      case (Cons b rs)
      note qs = this
      show ?thesis
      proof (cases rs)
        case Nil
        with \<open>routePoints s = a # qs\<close> qs Some routeEffect_short [of w s a b] run show ?thesis
          by simp
      next
        case (Cons c rest)
        with \<open>routePoints s = a # qs\<close> qs have "routePoints s = a # b # c # rest"
          by simp
        from routeEffect_facts [OF Some ok this] run show ?thesis
          by auto
      qed
    qed
  qed
qed

lemma three_points:
  assumes "length (ps :: latlng list) = 3"
  obtains a b c where "ps = [a, b, c]"
proof -
  from assms obtain a qs where "ps = a # qs" and "length qs = 2"
    by (cases ps) auto
  moreover then obtain b rs where "qs = b # rs" and "length rs = 1"
    by (cases qs) auto
  moreover then obtain c where "rs = [c]"
    by (cases rs) auto
  ultimately show ?thesis
    using that by blast
qed

lemma mapReady_eq:
  "mapReady =
     \<lparr>mapContainerRef = Some 0,
      mapRef = Some \<lparr>layers = [(1, TileLayer ''https://{s}.tile.openstreetmap.org/{z}/{x}/{y}.png'')],
                     view = SetView (418781 / 10000, - 876298 / 10000) 5\<rparr>,
      markersRef = [], polylineRef = None, lastId = 1, mapsCreated = 1, mapsLive = 1\<rparr>"
  by (simp add: mapReady_def mountedRefs_def initMapEffect_def addTo_def)

lemma mapReady_consistent: "refsConsistent mapReady \<and> mapRef mapReady \<noteq> None"
  by (simp add: mapReady_eq refsConsistent_def tracked_def layersOn_def)

text \<open>
  C2. On an initialised map whose refs are consistent, the effect applied for a route
  of three points and applied again for the same route (the location names may differ
  between the two runs) succeeds both times; after each run the map carries exactly
  three markers, held under the keys \<open>current\<close>, \<open>pickup\<close>, \<open>dropoff\<close>, and one
  polyline; the map has as many layers after the second run as after the first; and
  no layer that the refs held before a run is on the map after it.
\<close>

theorem C2_route_applied_twice:
  assumes "refsConsistent w" and "mapRef w \<noteq> None"
    and "length (routePoints s) = 3" and "routePoints s' = routePoints s"
  shows "\<exists>w1 w2. routeEffect s w = Inr w1 \<and> routeEffect s' w1 = Inr w2
    \<and> length (layersOn w2) = length (layersOn w1)
    \<and> markerCount w1 = 3 \<and> polylineCount w1 = 1
    \<and> markerCount w2 = 3 \<and> polylineCount w2 = 1
    \<and> map fst (markersRef w1) = [''current'', ''pickup'', ''dropoff'']
    \<and> map fst (markersRef w2) = [''current'', ''pickup'', ''dropoff'']
    \<and> set (tracked w) \<inter> set (map fst (layersOn w1)) = {}
    \<and> set (tracked w1) \<inter> set (map fst (layersOn w2)) = {}"
proof -
  from assms(3) obtain a b c where pts: "routePoints s = [a, b, c]"
    by (rule three_points)
  then have pts': "routePoints s' = [a, b, c]"
    using assms(4) by simp
  from assms(2) obtain m where m: "mapRef w = Some m"
    by blast
  define K where "K = filter (\<lambda>l. \<not> isMarker (snd l) \<and> \<not> isPolyline (snd l)) (layersOn w)"
  from routeEffect_facts [OF m assms(1) pts] obtain w1 where
    r1: "routeEffect s w = Inr w1" and m1: "mapRef w1 \<noteq> None" and ok1: "refsConsistent w1"
    and l1: "layersOn w1 = K @
           [(lastId w + 1, Marker a (''Current Location: '' @ currentLocation s)),
            (lastId w + 2, Marker b (''Pickup: '' @ pickupLocation s)),
            (lastId w + 3, Marker c (''Dropoff: '' @ dropoffLocation s)),
            (lastId w + 4, Polyline [a, b, c])]"
    and k1: "markersRef w1 =
         [(''current'', lastId w + 1), (''pickup'', lastId w + 2), (''dropoff'', lastId w + 3)]"
    and p1: "polylineRef w1 = Some (lastId w + 4)"
    and i1: "lastId w1 = lastId w + 4"
    unfolding K_def by blast
  from m1 obtain m' where m': "mapRef w1 = Some m'"
    by blast
  have plain: "\<forall>l \<in> set K. \<not> isMarker (snd l) \<and> \<not> isPolyline (snd l)"
    by (simp add: K_def)
  then have K1: "filter (\<lambda>l. \<not> isMarker (snd l) \<and> \<not> isPolyline (snd l)) (layersOn w1) = K"
    by (simp add: l1 del: append.simps)
  from routeEffect_facts [OF m' ok1 pts'] obtain w2 where
    r2: "routeEffect s' w1 = Inr w2"
    and l2: "layersOn w2 = K @
           [(lastId w1 + 1, Marker a (''Current Location: '' @ currentLocation s')),
            (lastId w1 + 2, Marker b (''Pickup: '' @ pickupLocation s')),
            (lastId w1 + 3, Marker c (''Dropoff: '' @ dropoffLocation s')),
            (lastId w1 + 4, Polyline [a, b, c])]"
    and k2: "markersRef w2 =
         [(''current'', lastId w1 + 1), (''pickup'', lastId w1 + 2), (''dropoff'', lastId w1 + 3)]"
    unfolding K1 by blast
  have noM: "filter (\<lambda>l. isMarker (snd l)) K = []" and noP: "filter (\<lambda>l. isPolyline (snd l)) K = []"
    using plain by (simp_all add: filter_empty_conv)
  have count1: "markerCount w1 = 3 \<and> polylineCount w1 = 1"
    by (simp add: markerCount_def polylineCount_def l1 noM noP del: append.simps)
  have count2: "markerCount w2 = 3 \<and> polylineCount w2 = 1"
    by (simp add: markerCount_def polylineCount_def l2 noM noP del: append.simps)
  have same: "length (layersOn w2) = length (layersOn w1)"
    by (simp add: l1 l2)
  have old: "\<forall>l \<in> set K. fst l \<le> lastId w \<and> fst l \<notin> set (tracked w)"
    using assms(1) by (auto simp: K_def refsConsistent_def list_all_iff)
  have held: "\<forall>i \<in> set (tracked w). i \<le> lastId w"
    using assms(1) by (simp add: refsConsistent_def list_all_iff)
  have gone1: "set (tracked w) \<inter> set (map fst (layersOn w1)) = {}"
    using old held by (fastforce simp: l1 simp del: append.simps)
  have t1: "tracked w1 = [lastId w + 1, lastId w + 2, lastId w + 3, lastId w + 4]"
    by (simp add: tracked_def k1 p1)
  have gone2: "set (tracked w1) \<inter> set (map fst (layersOn w2)) = {}"
    using old by (fastforce simp: l2 t1 i1 simp del: append.simps)
  show ?thesis
    using r1 r2 same count1 count2 k1 k2 gone1 gone2 by simp
qed

theorem C2_route_applied_twice_witness:
  "refsConsistent mapReady \<and> mapRef mapReady \<noteq> None
   \<and> length (routePoints (initialState\<lparr>routePoints := route3\<rparr>)) = 3
   \<and> (\<exists>w1 w2. routeEffect (initialState\<lparr>routePoints := route3\<rparr>) mapReady = Inr w1
        \<and> routeEffect (initialState\<lparr>routePoints := route3, pickupLocation := ''Memphis, TN''\<rparr>) w1 = Inr w2
        \<and> length (layersOn w2) = length (layersOn w1)
        \<and> markerCount w1 = 3 \<and> polylineCount w1 = 1
        \<and> markerCount w2 = 3 \<and> polylineCount w2 = 1)"
proof -
  have len: "length (routePoints (initialState\<lparr>routePoints := route3\<rparr>)) = 3"
    by (simp add: route3_def)
  have ready: "refsConsistent mapReady" "mapRef mapReady \<noteq> None"
    using mapReady_consistent by simp_all
  have "\<exists>w1 w2. routeEffect (initialState\<lparr>routePoints := route3\<rparr>) mapReady = Inr w1
        \<and> routeEffect (initialState\<lparr>routePoints := route3, pickupLocation := ''Memphis, TN''\<rparr>) w1 = Inr w2
        \<and> length (layersOn w2) = length (layersOn w1)
        \<and> markerCount w1 = 3 \<and> polylineCount w1 = 1
        \<and> markerCount w2 = 3 \<and> polylineCount w2 = 1"
    using C2_route_applied_twice [OF ready len,
        of "initialState\<lparr>routePoints := route3, pickupLocation := ''Memphis, TN''\<rparr>"]
    by simp blast
  then show ?thesis
    using ready len by blast
qed

text \<open>
  C8 (as stated, refuted). The effect has no check of the length of the route. For the
  route of four points on the initialised map it does not throw: it leaves three
  markers and one polyline on the map. For the empty route it returns at once, with the
  refs and the map as they were.
\<close>

theorem C8_length_not_checked_counterexample:
  "length route4 \<noteq> 3
   \<and> \<not> threw (routeEffect (initialState\<lparr>routePoints := route4\<rparr>) mapReady)
   \<and> length (routePoints (initialState\<lparr>routePoints := []\<rparr>)) \<noteq> 3
   \<and> routeEffect (initialState\<lparr>routePoints := []\<rparr>) mapReady = Inr mapReady"
proof -
  have four: "routePoints (initialState\<lparr>routePoints := route4\<rparr>)
      = (41, -87) # (38, -90) # (36, -86) # [(33, -84)]"
    by (simp add: route4_def)
  from mapReady_consistent obtain m where m: "mapRef mapReady = Some m"
    by blast
  from routeEffect_facts [OF m _ four] mapReady_consistent
  obtain w' where "routeEffect (initialState\<lparr>routePoints := route4\<rparr>) mapReady = Inr w'"
    by blast
  then have accepted: "\<not> threw (routeEffect (initialState\<lparr>routePoints := route4\<rparr>) mapReady)"
    by (simp add: threw_def)
  have empty: "routeEffect (initialState\<lparr>routePoints := []\<rparr>) mapReady = Inr mapReady"
    by (simp add: routeEffect_def)
  show ?thesis
    using accepted empty by (simp add: route4_def)
qed

text \<open>
  C8 (amended). The effect has no length check and raises no contract error of its own.
  Without a map or with an empty route it returns with nothing changed. With a map,
  consistent refs and a route of three or more points it does not throw: the markers
  and the polyline it leaves on the map are the three markers at the first three points
  and the polyline through all the points of the route.
\<close>

theorem C8_route_lengths:
  "(mapRef w = None \<or> routePoints s = [] \<longrightarrow> routeEffect s w = Inr w)
   \<and> (refsConsistent w \<and> mapRef w \<noteq> None \<and> 3 \<le> length (routePoints s) \<longrightarrow>
        \<not> threw (routeEffect s w)
        \<and> (\<exists>w'. routeEffect s w = Inr w'
              \<and> map snd (filter (\<lambda>l. isMarker (snd l) \<or> isPolyline (snd l)) (layersOn w'))
                  = [Marker (routePoints s ! 0) (''Current Location: '' @ currentLocation s),
                     Marker (routePoints s ! 1) (''Pickup: '' @ pickupLocation s),
                     Marker (routePoints s ! 2) (''Dropoff: '' @ dropoffLocation s),
                     Polyline (routePoints s)]))"
proof -
  have untouched: "routeEffect s w = Inr w" if "mapRef w = None \<or> routePoints s = []"
    using that by (auto simp: routeEffect_def)
  have rebuilt: "\<not> threw (routeEffect s w)
        \<and> (\<exists>w'. routeEffect s w = Inr w'
              \<and> map snd (filter (\<lambda>l. isMarker (snd l) \<or> isPolyline (snd l)) (layersOn w'))
                  = [Marker (routePoints s ! 0) (''Current Location: '' @ currentLocation s),
                     Marker (routePoints s ! 1) (''Pickup: '' @ pickupLocation s),
                     Marker (routePoints s ! 2) (''Dropoff: '' @ dropoffLocation s),
                     Polyline (routePoints s)])"
    if pre: "refsConsistent w \<and> mapRef w \<noteq> None \<and> 3 \<le> length (routePoints s)"
  proof -
    from pre obtain m where m: "mapRef w = Some m"
      by blast
    from pre obtain a qs where "routePoints s = a # qs" and "2 \<le> length qs"
      by (cases "routePoints s") auto
    moreover then obtain b rs where "qs = b # rs" and "1 \<le> length rs"
      by (cases qs) auto
    moreover then obtain c rest where "rs = c # rest"
      by (cases rs) auto
    ultimately have pts: "routePoints s = a # b # c # rest"
      by simp
    define K where "K = filter (\<lambda>l. \<not> isMarker (snd l) \<and> \<not> isPolyline (snd l)) (layersOn w)"
    from routeEffect_facts [OF m _ pts] pre obtain w' where
      r: "routeEffect s w = Inr w'"
      and l: "layersOn w' = K @
           [(lastId w + 1, Marker a (''Current Location: '' @ currentLocation s)),
            (lastId w + 2, Marker b (''Pickup: '' @ pickupLocation s)),
            (lastId w + 3, Marker c (''Dropoff: '' @ dropoffLocation s)),
            (lastId w + 4, Polyline (a # b # c # rest))]"
      unfolding K_def by blast
    have "filter (\<lambda>l. isMarker (snd l) \<or> isPolyline (snd l)) K = []"
      by (auto simp: K_def filter_empty_conv)
    then have "map snd (filter (\<lambda>l. isMarker (snd l) \<or> isPolyline (snd l)) (layersOn w'))
                  = [Marker a (''Current Location: '' @ currentLocation s),
                     Marker b (''Pickup: '' @ pickupLocation s),
                     Marker c (''Dropoff: '' @ dropoffLocation s),
                     Polyline (a # b # c # rest)]"
      by (simp add: l del: append.simps)
    then show ?thesis
      using r by (simp add: threw_def pts del: append.simps)
  qed
  have first: "mapRef w = None \<or> routePoints s = [] \<longrightarrow> routeEffect s w = Inr w"
    by (rule impI) (erule untouched)
  show ?thesis
    by (rule conjI [OF first]) (rule impI, erule rebuilt)
qed

theorem C8_route_lengths_witness:
  "refsConsistent mapReady \<and> mapRef mapReady \<noteq> None
   \<and> 3 \<le> length (routePoints (initialState\<lparr>routePoints := route4\<rparr>))
   \<and> \<not> threw (routeEffect (initialState\<lparr>routePoints := route4\<rparr>) mapReady)
   \<and> (\<exists>w'. routeEffect (initialState\<lparr>routePoints := route4\<rparr>) mapReady = Inr w'
         \<and> map snd (filter (\<lambda>l. isMarker (snd l) \<or> isPolyline (snd l)) (layersOn w'))
             = [Marker (41, -87) ''Current Location: Chicago, IL'',
                Marker (38, -90) ''Pickup: St. Louis, MO'',
                Marker (36, -86) ''Dropoff: Atlanta, GA'',
                Polyline [(41, -87), (38, -90), (36, -86), (33, -84)]])
   \<and> routePoints (initialState\<lparr>routePoints := []\<rparr>) = []
   \<and> routeEffect (initialState\<lparr>routePoints := []\<rparr>) mapReady = Inr mapReady"
proof -
  have pre: "refsConsistent mapReady \<and> mapRef mapReady \<noteq> None
      \<and> 3 \<le> length (routePoints (initialState\<lparr>routePoints := route4\<rparr>))"
    using mapReady_consistent by (simp add: route4_def)
  have none: "routePoints (initialState\<lparr>routePoints := []\<rparr>) = []"
    by simp
  note four = C8_route_lengths [of mapReady "initialState\<lparr>routePoints := route4\<rparr>"]
  note zero = C8_route_lengths [of mapReady "initialState\<lparr>routePoints := []\<rparr>"]
  have a: "\<not> threw (routeEffect (initialState\<lparr>routePoints := route4\<rparr>) mapReady)"
    using four pre by blast
  have "\<exists>w'. routeEffect (initialState\<lparr>routePoints := route4\<rparr>) mapReady = Inr w'
         \<and> map snd (filter (\<lambda>l. isMarker (snd l) \<or> isPolyline (snd l)) (layersOn w'))
             = [Marker (routePoints (initialState\<lparr>routePoints := route4\<rparr>) ! 0)
                  (''Current Location: '' @ currentLocation (initialState\<lparr>routePoints := route4\<rparr>)),
                Marker (routePoints (initialState\<lparr>routePoints := route4\<rparr>) ! 1)
                  (''Pickup: '' @ pickupLocation (initialState\<lparr>routePoints := route4\<rparr>)),
                Marker (routePoints (initialState\<lparr>routePoints := route4\<rparr>) ! 2)
                  (''Dropoff: '' @ dropoffLocation (initialState\<lparr>routePoints := route4\<rparr>)),
                Polyline (routePoints (initialState\<lparr>routePoints := route4\<rparr>))]"
    using four pre by blast
  then have b: "\<exists>w'. routeEffect (initialState\<lparr>routePoints := route4\<rparr>) mapReady = Inr w'
         \<and> map snd (filter (\<lambda>l. isMarker (snd l) \<or> isPolyline (snd l)) (layersOn w'))
             = [Marker (41, -87) ''Current Location: Chicago, IL'',
                Marker (38, -90) ''Pickup: St. Louis, MO'',
                Marker (36, -86) ''Dropoff: Atlanta, GA'',
                Polyline [(41, -87), (38, -90), (36, -86), (33, -84)]]"
    by (simp add: route4_def initialState_def)
  have c: "routeEffect (initialState\<lparr>routePoints := []\<rparr>) mapReady = Inr mapReady"
    using zero none by blast
  show ?thesis
    using pre a b c none by blast
qed

subsection \<open>The map initialisation effect\<close>

lemma initMap_noop: "mapRef w \<noteq> None \<Longrightarrow> initMapEffect w = w"
  by (simp add: initMapEffect_def)

lemma initMap_sets_ref:
  "mapContainerRef w \<noteq> None \<Longrightarrow> mapRef (initMapEffect w) \<noteq> None"
  by (auto simp: initMapEffect_def Let_def)

lemma initMap_idem: "initMapEffect (initMapEffect w) = initMapEffect w"
proof (cases "mapContainerRef w = None")
  case True
  then show ?thesis by (simp add: initMapEffect_def)
next
  case False
  then show ?thesis by (simp add: initMap_noop initMap_sets_ref)
qed

lemma initMap_repeated: "(initMapEffect ^^ n) w = (if n = 0 then w else initMapEffect w)"
  by (induction n) (simp_all add: initMap_idem)

lemma initMap_created: "mapsCreated (initMapEffect w) \<le> Suc (mapsCreated w)"
  by (simp add: initMapEffect_def Let_def)

lemma mapStep_live: "liveMatchesRef w \<Longrightarrow> liveMatchesRef (mapStep w e)"
  by (cases e)
    (auto simp: liveMatchesRef_def initMapEffect_def cleanupMapEffect_def Let_def
      split: option.splits)

lemma runMap_live: "liveMatchesRef w \<Longrightarrow> liveMatchesRef (runMap w evs)"
  unfolding runMap_def by (induction evs arbitrary: w) (simp_all add: mapStep_live)

text \<open>
  C9. Run while \<open>mapRef\<close> already holds a map, the initialisation effect changes
  nothing; running it twice is the same as running it once; however often it runs,
  \<open>L.map\<close> is called at most once more, so at most once after mounting; and in any
  sequence of runs of the effect and of its cleanup at most one map is alive.
\<close>

theorem C9_init_idempotent:
  "(mapRef w \<noteq> None \<longrightarrow> initMapEffect w = w)
   \<and> initMapEffect (initMapEffect w) = initMapEffect w
   \<and> mapsCreated ((initMapEffect ^^ n) w) \<le> Suc (mapsCreated w)
   \<and> (mapRef w \<noteq> None \<longrightarrow> mapsCreated ((initMapEffect ^^ n) w) = mapsCreated w)
   \<and> mapsCreated ((initMapEffect ^^ n) mountedRefs) \<le> 1
   \<and> mapsLive (runMap mountedRefs evs) \<le> 1"
proof -
  have once: "mapsCreated ((initMapEffect ^^ n) v) \<le> Suc (mapsCreated v)" for v
    by (simp add: initMap_repeated initMap_created)
  have kept: "mapsCreated ((initMapEffect ^^ n) w) = mapsCreated w" if "mapRef w \<noteq> None"
    using that by (simp add: initMap_repeated initMap_noop)
  have mounted: "mapsCreated ((initMapEffect ^^ n) mountedRefs) \<le> 1"
    using once [of mountedRefs] by (simp add: mountedRefs_def)
  have "liveMatchesRef mountedRefs"
    by (simp add: liveMatchesRef_def mountedRefs_def)
  then have "liveMatchesRef (runMap mountedRefs evs)"
    by (rule runMap_live)
  then have live: "mapsLive (runMap mountedRefs evs) \<le> 1"
    by (simp add: liveMatchesRef_def split: if_splits)
  show ?thesis
    using initMap_noop [of w] initMap_idem [of w] once [of w] kept mounted live by blast
qed

theorem C9_init_idempotent_witness:
  "mapRef mapReady \<noteq> None
   \<and> initMapEffect mapReady = mapReady
   \<and> mapsCreated ((initMapEffect ^^ 3) mapReady) = mapsCreated mapReady
   \<and> mapsCreated ((initMapEffect ^^ 3) mountedRefs) \<le> 1
   \<and> mapsLive (runMap mountedRefs [InitMap, InitMap, CleanupMap, InitMap]) \<le> 1"
proof -
  have ready: "mapRef mapReady \<noteq> None"
    using mapReady_consistent by simp
  show ?thesis
    using C9_init_idempotent [of mapReady 3 "[InitMap, InitMap, CleanupMap, InitMap]"] ready
    by blast
qed

end
